theory Spec2Isabelle
  imports Complex_Main
begin

section \<open>JavaScript numbers\<close>

text \<open>
  The scoring engine computes with JavaScript Numbers. A Number is modelled as an exact
  real or as \<open>NaN\<close>: every arithmetic operation is the exact one, without the rounding, the
  overflow and the underflow of IEEE doubles. The statements below are made on inputs
  where this makes no difference to what they say: fractions of four decimals and byte
  counts that are integers, far from the ends of the range of a double, and results that
  are read after \<open>round4\<close>. \<open>NaN\<close> is kept because the program can produce it (the time of
  an unparseable date, the Number of an object that is no Number) and because \<open>x || 0\<close>,
  \<open>>\<close>, \<open>===\<close> and \<open>Math.max\<close> treat it specially.
\<close>

datatype number = Num real | NaN

fun lift1 :: "(real \<Rightarrow> real) \<Rightarrow> number \<Rightarrow> number" where
  "lift1 f (Num x) = Num (f x)"
| "lift1 f NaN = NaN"

fun lift2 :: "(real \<Rightarrow> real \<Rightarrow> real) \<Rightarrow> number \<Rightarrow> number \<Rightarrow> number" where
  "lift2 f (Num x) (Num y) = Num (f x y)"
| "lift2 f _ _ = NaN"

definition add :: "number \<Rightarrow> number \<Rightarrow> number" where
  "add = lift2 (+)"

definition sub :: "number \<Rightarrow> number \<Rightarrow> number" where
  "sub = lift2 (-)"

definition mul :: "number \<Rightarrow> number \<Rightarrow> number" where
  "mul = lift2 (*)"

text \<open>
  A zero divisor gives an infinity or NaN in JavaScript, none of them a real; the model
  has the one non-real value for it. Every division of this program is by a non-zero
  constant or behind a guard, so the case is never reached.
\<close>

fun divide_num :: "number \<Rightarrow> number \<Rightarrow> number" where
  "divide_num (Num x) (Num y) = (if y = 0 then NaN else Num (x / y))"
| "divide_num _ _ = NaN"

definition neg :: "number \<Rightarrow> number" where
  "neg = lift1 uminus"

definition Math_abs :: "number \<Rightarrow> number" where
  "Math_abs = lift1 abs"

definition Math_max :: "number \<Rightarrow> number \<Rightarrow> number" where
  "Math_max = lift2 max"

definition Math_min :: "number \<Rightarrow> number \<Rightarrow> number" where
  "Math_min = lift2 min"

definition Math_exp :: "number \<Rightarrow> number" where
  "Math_exp = lift1 exp"

fun Math_sqrt :: "number \<Rightarrow> number" where
  "Math_sqrt (Num x) = (if x < 0 then NaN else Num (sqrt x))"
| "Math_sqrt NaN = NaN"

text \<open>\<open>Math.round\<close> rounds to the nearest integer, a half towards plus infinity.\<close>

definition Math_round :: "number \<Rightarrow> number" where
  "Math_round = lift1 (\<lambda>x. of_int \<lfloor>x + 1 / 2\<rfloor>)"

text \<open>\<open>x > y\<close> on Numbers: false as soon as one side is NaN.\<close>

fun gt :: "number \<Rightarrow> number \<Rightarrow> bool" where
  "gt (Num x) (Num y) = (x > y)"
| "gt _ _ = False"

text \<open>\<open>x !== y\<close> on Numbers: NaN differs from everything, itself included.\<close>

fun strict_neq :: "number \<Rightarrow> number \<Rightarrow> bool" where
  "strict_neq (Num x) (Num y) = (x \<noteq> y)"
| "strict_neq _ _ = True"

section \<open>Objects and sets\<close>

text \<open>
  A \<open>Record<string, number>\<close> is an association list in the object's own key order
  (\<open>Object.keys\<close>, \<open>Object.entries\<close>), each key once. The reordering of keys that are
  written as integers is outside this model. A \<open>Set\<close> built from an iterable keeps the
  first occurrence of each element, in order.
\<close>

type_synonym 'v object = "(string \<times> 'v) list"

definition Object_keys :: "'v object \<Rightarrow> string list" where
  "Object_keys obj = map fst obj"

definition Set_add :: "'a list \<Rightarrow> 'a \<Rightarrow> 'a list" where
  "Set_add s x = (if x \<in> set s then s else s @ [x])"

definition new_Set :: "'a list \<Rightarrow> 'a list" where
  "new_Set xs = foldl Set_add [] xs"

text \<open>
  A property read \<open>obj[key]\<close> looks for an own key first and then along the prototype
  chain. The objects of this program are plain objects (object literals, parsed JSON),
  whose prototype is \<open>Object.prototype\<close>: a key that is no own key reads as the inherited
  property when it is one of the names of \<open>Object.prototype\<close>, and as \<open>undefined\<close>
  otherwise. The inherited properties are functions (for \<open>__proto__\<close>, the prototype
  object itself).
\<close>

definition Object_prototype_names :: "string list" where
  "Object_prototype_names =
     [''constructor'', ''__defineGetter__'', ''__defineSetter__'', ''hasOwnProperty'',
      ''__lookupGetter__'', ''__lookupSetter__'', ''isPrototypeOf'', ''propertyIsEnumerable'',
      ''toString'', ''valueOf'', ''__proto__'', ''toLocaleString'']"

datatype 'v property = Own 'v | Inherited | Undefined

definition Object_get :: "'v object \<Rightarrow> string \<Rightarrow> 'v property" where
  "Object_get obj key =
     (case map_of obj key of
        Some v \<Rightarrow> Own v
      | None \<Rightarrow> if key \<in> set Object_prototype_names then Inherited else Undefined)"

text \<open>
  The values that the arithmetic of this program meets: a Number; an object or a function
  (an inherited property); and the string that \<open>+\<close> makes of an object and a Number, such
  as \<open>function Object() { [native code] }100\<close>, which is not the text of a number.
  \<open>ToNumber\<close> is the conversion that \<open>*\<close> and \<open>/\<close> apply to their operands.
\<close>

datatype jsvalue = Number number | Object | Text

fun ToNumber :: "jsvalue \<Rightarrow> number" where
  "ToNumber (Number n) = n"
| "ToNumber Object = NaN"
| "ToNumber Text = NaN"

text \<open>
  \<open>v || 0\<close> where \<open>v\<close> is a property read: \<open>undefined\<close>, \<open>0\<close> and \<open>NaN\<close> are falsy and give
  \<open>0\<close>; every other Number, an object and a non-empty string are truthy and stay.
\<close>

fun or_zero :: "jsvalue property \<Rightarrow> jsvalue" where
  "or_zero Undefined = Number (Num 0)"
| "or_zero Inherited = Object"
| "or_zero (Own (Number NaN)) = Number (Num 0)"
| "or_zero (Own (Number (Num x))) = (if x = 0 then Number (Num 0) else Number (Num x))"
| "or_zero (Own Object) = Object"
| "or_zero (Own Text) = Text"

text \<open>\<open>v + n\<close> for a Number \<open>n\<close>: the sum of two Numbers, a string as soon as \<open>v\<close> is none.\<close>

fun plus_Number :: "jsvalue \<Rightarrow> number \<Rightarrow> jsvalue" where
  "plus_Number (Number x) n = Number (add x n)"
| "plus_Number Object n = Text"
| "plus_Number Text n = Text"

section \<open>The data model (types)\<close>

record Commit =
  sha :: string
  message :: string
  repo :: string
  date :: string

record ProfileSummary =
  languages :: "number object"
  commitTraits :: "number object"
  activityScore :: number
  highlights :: string
  timezoneOffset :: "number option"

section \<open>The compatibility matcher (matcher.ts)\<close>

definition round4 :: "number \<Rightarrow> number" where
  "round4 n = divide_num (Math_round (mul n (Num 10000))) (Num 10000)"

text \<open>
  The body of the loop over \<open>allKeys\<close>; the state is \<open>(dotProduct, normA, normB)\<close>. The
  two vectors hold Numbers, and so do \<open>valA\<close> and \<open>valB\<close> unless the key is read from the
  prototype.
\<close>

fun cosineStep ::
  "number object \<Rightarrow> number object \<Rightarrow> number \<times> number \<times> number \<Rightarrow> string
     \<Rightarrow> number \<times> number \<times> number" where
  "cosineStep a b (dotProduct, normA, normB) key =
     (let valA = or_zero (map_property Number (Object_get a key));
          valB = or_zero (map_property Number (Object_get b key))
      in (add dotProduct (mul (ToNumber valA) (ToNumber valB)),
          add normA (mul (ToNumber valA) (ToNumber valA)),
          add normB (mul (ToNumber valB) (ToNumber valB))))"

text \<open>The loop itself, from the three zeroes, over the union of the keys.\<close>

definition cosineSums :: "number object \<Rightarrow> number object \<Rightarrow> number \<times> number \<times> number" where
  "cosineSums a b =
     (let allKeys = new_Set (Object_keys a @ Object_keys b)
      in foldl (cosineStep a b) (Num 0, Num 0, Num 0) allKeys)"

definition cosineSimilarity :: "number object \<Rightarrow> number object \<Rightarrow> number" where
  "cosineSimilarity a b =
     (let (dotProduct, normA, normB) = cosineSums a b;
          magnitude = mul (Math_sqrt normA) (Math_sqrt normB)
      in if magnitude = Num 0 then Num 0 else divide_num dotProduct magnitude)"

text \<open>
  The timezone term of \<open>computeCompatibility\<close> (its \<open>let timezoneScore\<close> block); an absent
  \<open>timezoneOffset\<close> is \<open>undefined\<close>, here \<open>None\<close>.
\<close>

definition timezoneScore :: "number option \<Rightarrow> number option \<Rightarrow> number" where
  "timezoneScore ta tb =
     (case (ta, tb) of
        (Some x, Some y) \<Rightarrow>
          (let deltaHours = Math_abs (sub x y)
           in Math_max (Num 0) (sub (Num 1) (divide_num deltaHours (Num 12))))
      | _ \<Rightarrow> Num (1 / 2))"

definition computeCompatibility :: "ProfileSummary \<Rightarrow> ProfileSummary \<Rightarrow> number" where
  "computeCompatibility a b =
     (let techOverlap = cosineSimilarity (languages a) (languages b);
          traitSimilarity = cosineSimilarity (commitTraits a) (commitTraits b);
          activitySimilarity = sub (Num 1) (Math_abs (sub (activityScore a) (activityScore b)));
          tzScore = timezoneScore (timezoneOffset a) (timezoneOffset b);
          score = add (add (add (mul (Num (4 / 10)) techOverlap)
                                 (mul (Num (3 / 10)) traitSimilarity))
                            (mul (Num (2 / 10)) activitySimilarity))
                      (mul (Num (1 / 10)) tzScore)
      in round4 score)"

section \<open>Strings and regular expressions\<close>

text \<open>
  Strings are lists of 8-bit characters; \<open>toLowerCase\<close> maps the letters \<open>A\<close> to \<open>Z\<close> and
  leaves every other character (the case mappings of Unicode are outside this model).
\<close>

definition toLowerChar :: "char \<Rightarrow> char" where
  "toLowerChar c =
     (case map_of (zip ''ABCDEFGHIJKLMNOPQRSTUVWXYZ'' ''abcdefghijklmnopqrstuvwxyz'') c of
        Some l \<Rightarrow> l
      | None \<Rightarrow> c)"

definition toLowerCase :: "string \<Rightarrow> string" where
  "toLowerCase s = map toLowerChar s"

text \<open>
  The six patterns are alternations of sequences of characters, one of them optional
  (\<open>docs?\<close>), under the flag \<open>i\<close>: a pattern character matches a subject character when
  both are the same letter up to case. No pattern has the flag \<open>g\<close>, so \<open>test\<close> keeps no
  state: it tells whether some alternative matches at some position of the subject.
\<close>

datatype atom = Ch char | Opt char

type_synonym RegExp = "atom list list"

fun matchHere :: "atom list \<Rightarrow> string \<Rightarrow> bool" where
  "matchHere [] s = True"
| "matchHere (Ch c # r) [] = False"
| "matchHere (Ch c # r) (x # xs) = (toLowerChar x = toLowerChar c \<and> matchHere r xs)"
| "matchHere (Opt c # r) [] = matchHere r []"
| "matchHere (Opt c # r) (x # xs) =
     ((toLowerChar x = toLowerChar c \<and> matchHere r xs) \<or> matchHere r (x # xs))"

fun RegExp_test :: "RegExp \<Rightarrow> string \<Rightarrow> bool" where
  "RegExp_test re [] = list_ex (\<lambda>alt. matchHere alt []) re"
| "RegExp_test re (x # xs) = (list_ex (\<lambda>alt. matchHere alt (x # xs)) re \<or> RegExp_test re xs)"

definition lit :: "string \<Rightarrow> atom list" where
  "lit s = map Ch s"

text \<open>\<open>TRAIT_KEYWORDS\<close> (types), in the order of its keys.\<close>

definition TRAIT_KEYWORDS :: "RegExp object" where
  "TRAIT_KEYWORDS =
     [(''fixer'', [lit ''fix'', lit ''bug'', lit ''panic'', lit ''crash'', lit ''nullpointer'',
                   lit ''error'', lit ''bugfix'']),
      (''tests'', [lit ''test'', lit ''spec'', lit ''assert'', lit ''integration test'',
                   lit ''unit test'']),
      (''docs'', [lit ''readme'', lit ''doc'' @ [Opt CHR ''s''], lit ''comment'']),
      (''wip'', [lit ''wip'', lit ''temp'', lit ''prototype'', lit ''draft'']),
      (''chores'', [lit ''chore'', lit ''bump'', lit ''deps'', lit ''maintenance'']),
      (''chaotic'', [lit ''fuck'', lit ''shit'', lit ''finally'', lit ''lol'', lit ''omg'',
                     lit ''whew'', lit ''screw''])]"

section \<open>More on objects and arrays\<close>

text \<open>\<open>obj[k] = v\<close>: the value of an own key is replaced in place, a new key goes last.\<close>

fun Object_set :: "'v object \<Rightarrow> string \<Rightarrow> 'v \<Rightarrow> 'v object" where
  "Object_set [] k v = [(k, v)]"
| "Object_set ((k', v') # rest) k v =
     (if k' = k then (k, v) # rest else (k', v') # Object_set rest k v)"

text \<open>\<open>obj[k]++\<close> on an object of Numbers; the value of an absent key is \<open>undefined\<close>, whose
  increment is NaN.\<close>

definition Object_increment :: "number object \<Rightarrow> string \<Rightarrow> number object" where
  "Object_increment obj k =
     Object_set obj k (add (case map_of obj k of Some v \<Rightarrow> v | None \<Rightarrow> NaN) (Num 1))"

text \<open>
  \<open>a.localeCompare(b)\<close>, as the comparison of the character codes from left to right: this is
  the alphabetical order on the words of lower-case letters that the program compares
  (the six trait names).
\<close>

fun localeCompare :: "string \<Rightarrow> string \<Rightarrow> number" where
  "localeCompare [] [] = Num 0"
| "localeCompare [] (y # ys) = Num (- 1)"
| "localeCompare (x # xs) [] = Num 1"
| "localeCompare (x # xs) (y # ys) =
     (if (of_char x :: nat) < of_char y then Num (- 1)
      else if (of_char y :: nat) < of_char x then Num 1
      else localeCompare xs ys)"

text \<open>
  \<open>Array.prototype.sort\<close> with a comparator: a stable sort, \<open>x\<close> stays before \<open>y\<close> unless the
  comparator returns a positive number for \<open>(x, y)\<close>.
\<close>

fun sortInsert :: "('a \<Rightarrow> 'a \<Rightarrow> number) \<Rightarrow> 'a \<Rightarrow> 'a list \<Rightarrow> 'a list" where
  "sortInsert cmp x [] = [x]"
| "sortInsert cmp x (y # ys) =
     (if gt (cmp x y) (Num 0) then y # sortInsert cmp x ys else x # y # ys)"

definition Array_sort :: "('a \<Rightarrow> 'a \<Rightarrow> number) \<Rightarrow> 'a list \<Rightarrow> 'a list" where
  "Array_sort cmp xs = foldr (sortInsert cmp) xs []"

fun Array_join :: "string \<Rightarrow> string list \<Rightarrow> string" where
  "Array_join sep [] = []"
| "Array_join sep [x] = x"
| "Array_join sep (x # y # ys) = x @ sep @ Array_join sep (y # ys)"

section \<open>The commit parser (parser.ts)\<close>

text \<open>
  \<open>new Date(dateStr).getTime()\<close> is a parameter \<open>getTime\<close> of the model: the milliseconds
  since the epoch, or NaN for a string that is no date (\<open>new Date\<close> never throws). The
  reference time \<open>now\<close> is given as its \<open>getTime()\<close>.
\<close>

definition daysSince :: "(string \<Rightarrow> number) \<Rightarrow> string \<Rightarrow> number \<Rightarrow> number" where
  "daysSince getTime dateStr now =
     (let diffMs = sub now (getTime dateStr)
      in divide_num diffMs (Num (1000 * 60 * 60 * 24)))"

text \<open>Counting the traits: the two nested loops over the commits and the patterns.\<close>

definition traitCounts0 :: "number object" where
  "traitCounts0 =
     [(''fixer'', Num 0), (''tests'', Num 0), (''docs'', Num 0), (''wip'', Num 0),
      (''chores'', Num 0), (''chaotic'', Num 0)]"

fun traitStep :: "string \<Rightarrow> number object \<Rightarrow> string \<times> RegExp \<Rightarrow> number object" where
  "traitStep msg traitCounts (trait, pattern) =
     (if RegExp_test pattern msg then Object_increment traitCounts trait else traitCounts)"

definition commitStep :: "number object \<Rightarrow> Commit \<Rightarrow> number object" where
  "commitStep traitCounts commit =
     (let msg = toLowerCase (message commit)
      in foldl (traitStep msg) traitCounts TRAIT_KEYWORDS)"

definition countTraits :: "Commit list \<Rightarrow> number object" where
  "countTraits commits = foldl commitStep traitCounts0 commits"

text \<open>Normalising the counts by the number of commits.\<close>

definition normalizeTraits :: "number object \<Rightarrow> number \<Rightarrow> number object" where
  "normalizeTraits traitCounts totalCommits =
     foldl (\<lambda>traits (trait, count). Object_set traits trait (round4 (divide_num count totalCommits)))
       [] traitCounts"

text \<open>
  The languages: bytes per language over the repositories of the commits. \<open>langTotals\<close>
  starts as the empty object literal. The assignment \<open>langTotals[lang] = v\<close> of a Number or
  a string defines or replaces an own key, except that for the key \<open>__proto__\<close>, when it is
  no own key, it reaches the setter of \<open>Object.prototype\<close>, which ignores a value that is
  no object. (In the other assignments of the program the key is a trait name or an own
  key of \<open>langTotals\<close>: they are \<open>Object_set\<close>.)
\<close>

definition Object_assign :: "'v object \<Rightarrow> string \<Rightarrow> 'v \<Rightarrow> 'v object" where
  "Object_assign obj k v =
     (if k = ''__proto__'' \<and> map_of obj k = None then obj else Object_set obj k v)"

fun langStep :: "jsvalue object \<times> number \<Rightarrow> string \<times> number \<Rightarrow> jsvalue object \<times> number" where
  "langStep (langTotals, grandTotal) (lang, bytes) =
     (Object_assign langTotals lang (plus_Number (or_zero (Object_get langTotals lang)) bytes),
      add grandTotal bytes)"

text \<open>
  \<open>repoLanguages[repo]\<close> is the byte map of the repository, \<open>undefined\<close>, which the test
  \<open>if (repoLangs)\<close> skips, or an inherited function, which has no entries.
\<close>

definition repoStep ::
  "number object object \<Rightarrow> jsvalue object \<times> number \<Rightarrow> string \<Rightarrow> jsvalue object \<times> number" where
  "repoStep repoLanguages st r =
     (case Object_get repoLanguages r of
        Own repoLangs \<Rightarrow> foldl langStep st repoLangs
      | Inherited \<Rightarrow> foldl langStep st []
      | Undefined \<Rightarrow> st)"

definition languageTotals :: "Commit list \<Rightarrow> number object object \<Rightarrow> jsvalue object \<times> number" where
  "languageTotals commits repoLanguages =
     (let userRepos = new_Set (map repo commits)
      in foldl (repoStep repoLanguages) ([], Num 0) userRepos)"

definition computeLanguages :: "Commit list \<Rightarrow> number object object option \<Rightarrow> number object" where
  "computeLanguages commits repoLanguages =
     (case repoLanguages of
        None \<Rightarrow> []
      | Some rl \<Rightarrow>
          (let (langTotals, grandTotal) = languageTotals commits rl
           in if gt grandTotal (Num 0)
              then foldl (\<lambda>langs (lang, bytes).
                            Object_set langs lang (round4 (divide_num (ToNumber bytes) grandTotal)))
                     [] langTotals
              else []))"

text \<open>The activity score.\<close>

definition weightStep :: "(string \<Rightarrow> number) \<Rightarrow> number \<Rightarrow> number \<Rightarrow> Commit \<Rightarrow> number" where
  "weightStep getTime now weightSum commit =
     (let days = daysSince getTime (date commit) now;
          weight = Math_exp (divide_num (neg days) (Num 30))
      in add weightSum weight)"

definition computeActivity :: "(string \<Rightarrow> number) \<Rightarrow> Commit list \<Rightarrow> number \<Rightarrow> number" where
  "computeActivity getTime commits now =
     (let weightSum = foldl (weightStep getTime now) (Num 0) commits;
          divisor = Math_min (Num 100) (Num (real (length commits)));
          rawActivity = divide_num weightSum divisor
      in round4 (Math_min (Num 1) (Math_max (Num 0) rawActivity)))"

text \<open>The highlights: the two first traits, by value downwards, then by name.\<close>

definition compareTraits :: "string \<times> number \<Rightarrow> string \<times> number \<Rightarrow> number" where
  "compareTraits a b =
     (if strict_neq (snd b) (snd a) then sub (snd b) (snd a)
      else localeCompare (fst a) (fst b))"

definition computeHighlights :: "number object \<Rightarrow> string" where
  "computeHighlights traits =
     (let traitEntries = Array_sort compareTraits (filter (\<lambda>(_, v). gt v (Num 0)) traits)
      in Array_join '', '' (map fst (take 2 traitEntries)))"

definition parseCommits ::
  "(string \<Rightarrow> number) \<Rightarrow> Commit list \<Rightarrow> number object object option \<Rightarrow> number
     \<Rightarrow> ProfileSummary" where
  "parseCommits getTime commits repoLanguages now =
     (if length commits = 0 then
        \<lparr>languages = [], commitTraits = [], activityScore = Num 0, highlights = [],
         timezoneOffset = None\<rparr>
      else
        (let totalCommits = Num (real (length commits));
             traits = normalizeTraits (countTraits commits) totalCommits
         in \<lparr>languages = computeLanguages commits repoLanguages,
             commitTraits = traits,
             activityScore = computeActivity getTime commits now,
             highlights = computeHighlights traits,
             timezoneOffset = None\<rparr>))"


section \<open>The outcome of a call of the parser\<close>

text \<open>
  The functions above give the profile that \<open>parseCommits\<close> computes. A call of it ends
  in one of two ways, by returning or by throwing, and this section embeds the same
  statements with that outcome explicit: \<open>Inr\<close> of the value returned, \<open>Inl\<close> of the error
  thrown. The arguments are of the declared types (an array of commits whose fields are
  strings, an optional map of byte maps). Two operations of the function can throw, both a
  \<open>TypeError\<close>: the read of a property of \<open>undefined\<close>, and \<open>Object.entries\<close> of \<open>undefined\<close>.
  Nothing else can: the module has no \<open>throw\<close>, \<open>new Date\<close> of any string is a date, valid
  or not, and \<open>getTime\<close>, \<open>toLowerCase\<close>, \<open>test\<close>, the arithmetic and the functions of \<open>Math\<close>
  never throw.
\<close>

datatype error = TypeError

text \<open>\<open>obj[key]\<close> where \<open>obj\<close> may be \<open>undefined\<close>.\<close>

definition property_of :: "'v object option \<Rightarrow> string \<Rightarrow> error + 'v property" where
  "property_of obj key =
     (case obj of None \<Rightarrow> Inl TypeError | Some entries \<Rightarrow> Inr (Object_get entries key))"

text \<open>\<open>Object.entries(v)\<close> where \<open>v\<close> is the result of a property read.\<close>

definition Object_entries :: "'v object property \<Rightarrow> error + (string \<times> 'v) list" where
  "Object_entries v =
     (case v of Own entries \<Rightarrow> Inr entries | Inherited \<Rightarrow> Inr [] | Undefined \<Rightarrow> Inl TypeError)"

text \<open>A \<open>for\<close> loop whose body may throw: the first error ends it.\<close>

fun for_of :: "('s \<Rightarrow> 'x \<Rightarrow> error + 's) \<Rightarrow> 's \<Rightarrow> 'x list \<Rightarrow> error + 's" where
  "for_of body st [] = Inr st"
| "for_of body st (x # xs) =
     (case body st x of Inl e \<Rightarrow> Inl e | Inr st' \<Rightarrow> for_of body st' xs)"

text \<open>The body of the loop over \<open>userRepos\<close>, with its test \<open>if (repoLangs)\<close>.\<close>

definition repoStep_call ::
  "number object object option \<Rightarrow> jsvalue object \<times> number \<Rightarrow> string
     \<Rightarrow> error + jsvalue object \<times> number" where
  "repoStep_call repoLanguages st r =
     (case property_of repoLanguages r of
        Inl e \<Rightarrow> Inl e
      | Inr repoLangs \<Rightarrow>
          if repoLangs \<noteq> Undefined
          then (case Object_entries repoLangs of
                  Inl e \<Rightarrow> Inl e
                | Inr entries \<Rightarrow> Inr (foldl langStep st entries))
          else Inr st)"

text \<open>The block of the languages, with its test \<open>if (repoLanguages)\<close>.\<close>

definition computeLanguages_call ::
  "Commit list \<Rightarrow> number object object option \<Rightarrow> error + number object" where
  "computeLanguages_call commits repoLanguages =
     (if repoLanguages \<noteq> None
      then (let userRepos = new_Set (map repo commits)
            in case for_of (repoStep_call repoLanguages) ([], Num 0) userRepos of
                 Inl e \<Rightarrow> Inl e
               | Inr (langTotals, grandTotal) \<Rightarrow>
                   Inr (if gt grandTotal (Num 0)
                        then foldl (\<lambda>langs (lang, bytes).
                                      Object_set langs lang
                                        (round4 (divide_num (ToNumber bytes) grandTotal)))
                               [] langTotals
                        else []))
      else Inr [])"

definition parseCommits_call ::
  "(string \<Rightarrow> number) \<Rightarrow> Commit list \<Rightarrow> number object object option \<Rightarrow> number
     \<Rightarrow> error + ProfileSummary" where
  "parseCommits_call getTime commits repoLanguages now =
     (if length commits = 0 then
        Inr \<lparr>languages = [], commitTraits = [], activityScore = Num 0, highlights = [],
             timezoneOffset = None\<rparr>
      else
        (let totalCommits = Num (real (length commits));
             traits = normalizeTraits (countTraits commits) totalCommits
         in case computeLanguages_call commits repoLanguages of
              Inl e \<Rightarrow> Inl e
            | Inr langs \<Rightarrow>
                Inr \<lparr>languages = langs,
                     commitTraits = traits,
                     activityScore = computeActivity getTime commits now,
                     highlights = computeHighlights traits,
                     timezoneOffset = None\<rparr>))"

section \<open>Auxiliary notions for the matcher\<close>

text \<open>
  A read of \<open>key\<close> in \<open>a\<close> is plain when it does not reach the prototype: \<open>key\<close> is an own
  key of \<open>a\<close>, or no name of \<open>Object.prototype\<close>. Then \<open>a[key] || 0\<close> is a Number, the real
  \<open>valOf a key\<close>.
\<close>

definition plainRead :: "'v object \<Rightarrow> string \<Rightarrow> bool" where
  "plainRead a k \<longleftrightarrow> k \<in> fst ` set a \<or> k \<notin> set Object_prototype_names"

definition valOf :: "number object \<Rightarrow> string \<Rightarrow> real" where
  "valOf a k =
     (case or_zero (map_property Number (Object_get a k)) of Number (Num x) \<Rightarrow> x | _ \<Rightarrow> 0)"

definition keysOf :: "number object \<Rightarrow> number object \<Rightarrow> string list" where
  "keysOf a b = new_Set (Object_keys a @ Object_keys b)"

definition dotOf :: "number object \<Rightarrow> number object \<Rightarrow> string list \<Rightarrow> real" where
  "dotOf a b ks = (\<Sum>k\<leftarrow>ks. valOf a k * valOf b k)"

definition cosineOf :: "number object \<Rightarrow> number object \<Rightarrow> real" where
  "cosineOf a b =
     (let ks = keysOf a b; m = sqrt (dotOf a a ks) * sqrt (dotOf b b ks)
      in if m = 0 then 0 else dotOf a b ks / m)"

text \<open>
  A vector as the profile builder makes them: each key once, every value a fraction of
  \<open>[0,1]\<close> with four decimals, and one value at least that is not zero.
\<close>

definition fraction4 :: "number \<Rightarrow> bool" where
  "fraction4 v =
     (case v of
        Num x \<Rightarrow> 0 \<le> x \<and> x \<le> 1 \<and> real_of_int \<lfloor>x * 10000\<rfloor> = x * 10000
      | NaN \<Rightarrow> False)"

definition fractionVector :: "number object \<Rightarrow> bool" where
  "fractionVector a \<longleftrightarrow>
     distinct (map fst a) \<and> list_all (\<lambda>(k, v). fraction4 v) a \<and>
     list_ex (\<lambda>(k, v). v \<noteq> Num 0) a"

text \<open>The profile of no commits, as \<open>parseCommits\<close> returns it; it has no timezone offset.\<close>

definition emptyProfile :: ProfileSummary where
  "emptyProfile =
     \<lparr>languages = [], commitTraits = [], activityScore = Num 0, highlights = [],
      timezoneOffset = None\<rparr>"


text \<open>The two profiles of the matcher's partial-overlap test.\<close>

definition testProfileA :: ProfileSummary where
  "testProfileA =
     \<lparr>languages = [(''TypeScript'', Num (7 / 10)), (''Python'', Num (3 / 10))],
      commitTraits = [(''fixer'', Num (6 / 10)), (''tests'', Num (4 / 10)), (''docs'', Num 0),
                      (''wip'', Num 0), (''chores'', Num 0), (''chaotic'', Num 0)],
      activityScore = Num (7 / 10), highlights = ''fixer, tests'',
      timezoneOffset = Some (Num 0)\<rparr>"

definition testProfileB :: ProfileSummary where
  "testProfileB =
     \<lparr>languages = [(''TypeScript'', Num (5 / 10)), (''Go'', Num (5 / 10))],
      commitTraits = [(''fixer'', Num (4 / 10)), (''docs'', Num (6 / 10)), (''tests'', Num 0),
                      (''wip'', Num 0), (''chores'', Num 0), (''chaotic'', Num 0)],
      activityScore = Num (5 / 10), highlights = ''docs, fixer'',
      timezoneOffset = Some (Num 3)\<rparr>"

text \<open>The two profiles of the matcher's timezone test.\<close>

definition tzProfileA :: ProfileSummary where
  "tzProfileA =
     \<lparr>languages = [(''TypeScript'', Num 1)], commitTraits = [(''fixer'', Num 1)],
      activityScore = Num (5 / 10), highlights = ''fixer'',
      timezoneOffset = Some (Num (- 6))\<rparr>"

definition tzProfileB :: ProfileSummary where
  "tzProfileB =
     \<lparr>languages = [(''TypeScript'', Num 1)], commitTraits = [(''fixer'', Num 1)],
      activityScore = Num (5 / 10), highlights = ''fixer'',
      timezoneOffset = Some (Num 6)\<rparr>"

section \<open>Auxiliary notions for the parser\<close>

text \<open>The six trait names, in the key order of \<open>traitCounts\<close> and of \<open>TRAIT_KEYWORDS\<close>.\<close>

definition traitNames :: "string list" where
  "traitNames = [''fixer'', ''tests'', ''docs'', ''wip'', ''chores'', ''chaotic'']"

text \<open>Whether a message matches the pattern of a trait, and how many commits do.\<close>

definition matchesTrait :: "string \<Rightarrow> string \<Rightarrow> bool" where
  "matchesTrait t msg =
     (case map_of TRAIT_KEYWORDS t of
        Some pattern \<Rightarrow> RegExp_test pattern (toLowerCase msg)
      | None \<Rightarrow> False)"

definition traitCount :: "string \<Rightarrow> Commit list \<Rightarrow> nat" where
  "traitCount t commits = length (filter (\<lambda>c. matchesTrait t (message c)) commits)"

text \<open>The normalised value of a trait: \<open>round4 (count / totalCommits)\<close>, as a real.\<close>

definition traitValue :: "string \<Rightarrow> Commit list \<Rightarrow> real" where
  "traitValue t commits =
     of_int \<lfloor>real (traitCount t commits) / real (length commits) * 10000 + 1 / 2\<rfloor> / 10000"

text \<open>
  Matching against a subject that is already in lower case, by plain equality of
  characters: what \<open>matchHere\<close> computes when the pattern is in lower case.
\<close>

fun matchExact :: "atom list \<Rightarrow> string \<Rightarrow> bool" where
  "matchExact [] s = True"
| "matchExact (Ch c # r) [] = False"
| "matchExact (Ch c # r) (x # xs) = (x = c \<and> matchExact r xs)"
| "matchExact (Opt c # r) [] = matchExact r []"
| "matchExact (Opt c # r) (x # xs) = ((x = c \<and> matchExact r xs) \<or> matchExact r (x # xs))"

fun testExact :: "RegExp \<Rightarrow> string \<Rightarrow> bool" where
  "testExact re [] = list_ex (\<lambda>alt. matchExact alt []) re"
| "testExact re (x # xs) = (list_ex (\<lambda>alt. matchExact alt (x # xs)) re \<or> testExact re xs)"

fun lowerAtom :: "atom \<Rightarrow> bool" where
  "lowerAtom (Ch c) = (toLowerChar c = c)"
| "lowerAtom (Opt c) = (toLowerChar c = c)"

definition matchesExact :: "string \<Rightarrow> string \<Rightarrow> bool" where
  "matchesExact t msg =
     (case map_of TRAIT_KEYWORDS t of
        Some pattern \<Rightarrow> testExact pattern (toLowerCase msg)
      | None \<Rightarrow> False)"

text \<open>The five commits of the parser's trait test, and their messages.\<close>

definition scenarioMessages :: "string list" where
  "scenarioMessages =
     [''fix: resolve null pointer bug'', ''fix: crash on login'', ''add unit test for parser'',
      ''update README docs'', ''chore: bump dependencies'']"

definition scenarioCommits :: "Commit list" where
  "scenarioCommits =
     [\<lparr>sha = ''a1'', message = ''fix: resolve null pointer bug'', repo = ''test/repo'',
       date = ''2024-01-14T10:00:00Z''\<rparr>,
      \<lparr>sha = ''a2'', message = ''fix: crash on login'', repo = ''test/repo'',
       date = ''2024-01-13T10:00:00Z''\<rparr>,
      \<lparr>sha = ''a3'', message = ''add unit test for parser'', repo = ''test/repo'',
       date = ''2024-01-12T10:00:00Z''\<rparr>,
      \<lparr>sha = ''a4'', message = ''update README docs'', repo = ''test/repo'',
       date = ''2024-01-11T10:00:00Z''\<rparr>,
      \<lparr>sha = ''a5'', message = ''chore: bump dependencies'', repo = ''test/repo'',
       date = ''2024-01-10T10:00:00Z''\<rparr>]"

text \<open>
  The words that a sequence of atoms matches exactly (an optional character is in or
  out), and the keywords of a pattern: the words of its alternatives.
\<close>

fun wordsOf :: "atom list \<Rightarrow> string list" where
  "wordsOf [] = [[]]"
| "wordsOf (Ch c # r) = map ((#) c) (wordsOf r)"
| "wordsOf (Opt c # r) = map ((#) c) (wordsOf r) @ wordsOf r"

definition keywordsOf :: "RegExp \<Rightarrow> string list" where
  "keywordsOf pattern = concat (map wordsOf pattern)"

text \<open>The pattern of a trait, and a commit whose words contain three keywords.\<close>

definition patternOf :: "string \<Rightarrow> RegExp" where
  "patternOf t = (case map_of TRAIT_KEYWORDS t of Some pattern \<Rightarrow> pattern | None \<Rightarrow> [])"

definition dockerCommit :: Commit where
  "dockerCommit =
     \<lparr>sha = ''d1'', message = ''Update Dockerfile to latest template'', repo = ''test/repo'',
      date = ''2024-01-15T12:00:00Z''\<rparr>"

text \<open>The real of a number, and the weight \<open>exp (- days / 30)\<close> of a commit as a real.\<close>

definition numOf :: "number \<Rightarrow> real" where
  "numOf v = (case v of Num x \<Rightarrow> x | NaN \<Rightarrow> 0)"

definition weightOf :: "(string \<Rightarrow> number) \<Rightarrow> real \<Rightarrow> Commit \<Rightarrow> real" where
  "weightOf getTime t c = exp (- ((t - numOf (getTime (date c))) / 86400000) / 30)"

text \<open>
  An instance of \<open>getTime\<close> for the examples: the times of the two dates of the parser's
  activity test (the reference date and thirty days before it), in milliseconds; no other
  string is a date for it. Then the five old commits of that test, and a list whose
  second commit has a timestamp that is no date.
\<close>

definition testClock :: "string \<Rightarrow> number" where
  "testClock s =
     (if s = ''2024-01-15T12:00:00Z'' then Num 1705320000000
      else if s = ''2023-12-16T12:00:00Z'' then Num 1702728000000
      else NaN)"

definition oldCommits :: "Commit list" where
  "oldCommits =
     [\<lparr>sha = ''c1'', message = ''old commit 1'', repo = ''test/repo'', date = ''2023-12-16T12:00:00Z''\<rparr>,
      \<lparr>sha = ''c2'', message = ''old commit 2'', repo = ''test/repo'', date = ''2023-12-16T12:00:00Z''\<rparr>,
      \<lparr>sha = ''c3'', message = ''old commit 3'', repo = ''test/repo'', date = ''2023-12-16T12:00:00Z''\<rparr>,
      \<lparr>sha = ''c4'', message = ''old commit 4'', repo = ''test/repo'', date = ''2023-12-16T12:00:00Z''\<rparr>,
      \<lparr>sha = ''c5'', message = ''old commit 5'', repo = ''test/repo'', date = ''2023-12-16T12:00:00Z''\<rparr>]"

definition badCommits :: "Commit list" where
  "badCommits =
     [\<lparr>sha = ''c1'', message = ''old commit 1'', repo = ''test/repo'', date = ''2023-12-16T12:00:00Z''\<rparr>,
      \<lparr>sha = ''x1'', message = ''wip'', repo = ''test/repo'', date = ''not a date''\<rparr>]"

text \<open>
  The sum of the values of an object, as a real. Byte counts are given as the language
  statistics of a repository give them: every count is an integer from \<open>0\<close> to below
  \<open>2^53\<close> (the integers that a double counts exactly), and no language name is a name of
  \<open>Object.prototype\<close>. The invariant of the aggregation loops under such byte counts: the
  keys of \<open>langTotals\<close> are distinct, its values are non-negative Numbers, and \<open>grandTotal\<close>
  is their sum.
\<close>

definition sumOfValues :: "number object \<Rightarrow> real" where
  "sumOfValues obj = (\<Sum>(k, v)\<leftarrow>obj. numOf v)"

definition byteCount :: "number \<Rightarrow> bool" where
  "byteCount v =
     (case v of Num x \<Rightarrow> 0 \<le> x \<and> x < 2 ^ 53 \<and> real_of_int \<lfloor>x\<rfloor> = x | NaN \<Rightarrow> False)"

definition byteCounts :: "number object object \<Rightarrow> bool" where
  "byteCounts repoLanguages \<longleftrightarrow>
     (\<forall>(r, repoLangs)\<in>set repoLanguages. \<forall>(lang, bytes)\<in>set repoLangs.
        lang \<notin> set Object_prototype_names \<and> byteCount bytes)"

definition totalOf :: "jsvalue \<Rightarrow> real" where
  "totalOf v = (case v of Number (Num x) \<Rightarrow> x | _ \<Rightarrow> 0)"

definition sumOfTotals :: "jsvalue object \<Rightarrow> real" where
  "sumOfTotals obj = (\<Sum>(k, v)\<leftarrow>obj. totalOf v)"

definition totalsInv :: "jsvalue object \<times> number \<Rightarrow> bool" where
  "totalsInv st \<longleftrightarrow>
     distinct (map fst (fst st)) \<and>
     (\<forall>(lang, v)\<in>set (fst st). \<exists>x. v = Number (Num x) \<and> 0 \<le> x) \<and>
     snd st = Num (sumOfTotals (fst st))"

text \<open>The fraction of a language: \<open>round4 (bytes / grandTotal)\<close>, as a real.\<close>

definition fractionOf :: "real \<Rightarrow> jsvalue \<Rightarrow> real" where
  "fractionOf g v = real_of_int \<lfloor>totalOf v / g * 10000 + 1 / 2\<rfloor> / 10000"

text \<open>
  One commit in a repository with three languages of one byte each; and the two commits
  and the byte maps of the parser's language test.
\<close>

definition thirdsCommits :: "Commit list" where
  "thirdsCommits =
     [\<lparr>sha = ''d1'', message = ''commit to repo1'', repo = ''user/repo1'',
       date = ''2024-01-15T12:00:00Z''\<rparr>]"

definition thirdsLanguages :: "number object object" where
  "thirdsLanguages =
     [(''user/repo1'', [(''TypeScript'', Num 1), (''JavaScript'', Num 1), (''Python'', Num 1)])]"

definition normCommits :: "Commit list" where
  "normCommits =
     [\<lparr>sha = ''d1'', message = ''commit to repo1'', repo = ''user/repo1'',
       date = ''2024-01-15T12:00:00Z''\<rparr>,
      \<lparr>sha = ''d2'', message = ''commit to repo2'', repo = ''user/repo2'',
       date = ''2024-01-14T12:00:00Z''\<rparr>]"

definition normLanguages :: "number object object" where
  "normLanguages =
     [(''user/repo1'', [(''TypeScript'', Num 8000), (''JavaScript'', Num 2000)]),
      (''user/repo2'', [(''TypeScript'', Num 5000), (''Python'', Num 5000)])]"

text \<open>
  More data of the repository's unit tests: the profile of the identical-profiles test,
  the five fresh commits of the activity test and the three commits of the chaotic-trait
  test.
\<close>

definition identicalProfile :: ProfileSummary where
  "identicalProfile =
     \<lparr>languages = [(''TypeScript'', Num (6 / 10)), (''Python'', Num (4 / 10))],
      commitTraits = [(''fixer'', Num (5 / 10)), (''tests'', Num (3 / 10)), (''docs'', Num (2 / 10))],
      activityScore = Num (8 / 10), highlights = ''fixer, tests'', timezoneOffset = None\<rparr>"

definition freshCommits :: "Commit list" where
  "freshCommits =
     [\<lparr>sha = ''b1'', message = ''commit 1'', repo = ''test/repo'', date = ''2024-01-15T12:00:00Z''\<rparr>,
      \<lparr>sha = ''b2'', message = ''commit 2'', repo = ''test/repo'', date = ''2024-01-15T12:00:00Z''\<rparr>,
      \<lparr>sha = ''b3'', message = ''commit 3'', repo = ''test/repo'', date = ''2024-01-15T12:00:00Z''\<rparr>,
      \<lparr>sha = ''b4'', message = ''commit 4'', repo = ''test/repo'', date = ''2024-01-15T12:00:00Z''\<rparr>,
      \<lparr>sha = ''b5'', message = ''commit 5'', repo = ''test/repo'', date = ''2024-01-15T12:00:00Z''\<rparr>]"

definition chaoticCommits :: "Commit list" where
  "chaoticCommits =
     [\<lparr>sha = ''f1'', message = ''finally fixed this shit'', repo = ''test/repo'',
       date = ''2024-01-15T12:00:00Z''\<rparr>,
      \<lparr>sha = ''f2'', message = ''omg it works lol'', repo = ''test/repo'',
       date = ''2024-01-15T12:00:00Z''\<rparr>,
      \<lparr>sha = ''f3'', message = ''clean refactor'', repo = ''test/repo'',
       date = ''2024-01-15T12:00:00Z''\<rparr>]"

section \<open>Lemmas on the matcher\<close>

lemma or_zero_valOf:
  "plainRead a k \<Longrightarrow> or_zero (map_property Number (Object_get a k)) = Number (Num (valOf a k))"
proof (cases "map_of a k")
  case None
  assume "plainRead a k"
  with None have "k \<notin> set Object_prototype_names"
    by (simp add: plainRead_def map_of_eq_None_iff)
  with None show ?thesis by (simp add: valOf_def Object_get_def)
next
  case (Some v)
  then show ?thesis by (cases v) (simp_all add: valOf_def Object_get_def)
qed

lemma cosine_loop:
  "\<forall>k\<in>set ks. plainRead a k \<and> plainRead b k \<Longrightarrow>
   foldl (cosineStep a b) (Num d, Num na, Num nb) ks =
     (Num (d + (\<Sum>k\<leftarrow>ks. valOf a k * valOf b k)),
      Num (na + (\<Sum>k\<leftarrow>ks. valOf a k * valOf a k)),
      Num (nb + (\<Sum>k\<leftarrow>ks. valOf b k * valOf b k)))"
  by (induction ks arbitrary: d na nb)
     (simp_all add: or_zero_valOf add_def mul_def add.assoc)

lemma set_new_Set_aux: "set (foldl Set_add s xs) = set s \<union> set xs"
  by (induction xs arbitrary: s) (auto simp: Set_add_def)

lemma distinct_new_Set_aux: "distinct s \<Longrightarrow> distinct (foldl Set_add s xs)"
  by (induction xs arbitrary: s) (auto simp: Set_add_def)

lemma set_new_Set: "set (new_Set xs) = set xs"
  by (simp add: new_Set_def set_new_Set_aux)

lemma distinct_new_Set: "distinct (new_Set xs)"
  by (simp add: new_Set_def distinct_new_Set_aux)

lemma dotOf_self_nonneg: "0 \<le> dotOf a a ks"
  unfolding dotOf_def by (rule sum_list_nonneg) auto

lemma cosineSums_Num:
  assumes "\<forall>k\<in>set (keysOf a b). plainRead a k \<and> plainRead b k"
  shows "cosineSums a b =
     (Num (dotOf a b (keysOf a b)), Num (dotOf a a (keysOf a b)), Num (dotOf b b (keysOf a b)))"
  using cosine_loop [OF assms, of 0 0 0]
  by (simp add: cosineSums_def Let_def keysOf_def dotOf_def)

lemma cosineSimilarity_Num:
  assumes "\<forall>k\<in>set (keysOf a b). plainRead a k \<and> plainRead b k"
  shows "cosineSimilarity a b = Num (cosineOf a b)"
proof -
  let ?ks = "keysOf a b"
  have A: "\<not> dotOf a a ?ks < 0" and B: "\<not> dotOf b b ?ks < 0"
    using dotOf_self_nonneg [of a ?ks] dotOf_self_nonneg [of b ?ks] by simp_all
  show ?thesis
    unfolding cosineSimilarity_def cosineSums_Num [OF assms] Let_def cosineOf_def
    using A B by (simp add: mul_def)
qed

lemma plainRead_self: "\<forall>k\<in>set (keysOf a a). plainRead a k \<and> plainRead a k"
  by (simp add: keysOf_def set_new_Set Object_keys_def plainRead_def)

lemma cosineOf_self:
  assumes "dotOf a a (keysOf a a) \<noteq> 0"
  shows "cosineOf a a = 1"
  using assms dotOf_self_nonneg [of a "keysOf a a"] by (simp add: cosineOf_def Let_def)

lemma dotOf_self_pos:
  assumes "map_of a k = Some (Num x)" "x \<noteq> 0"
  shows "dotOf a a (keysOf a a) \<noteq> 0"
proof
  assume z: "dotOf a a (keysOf a a) = 0"
  have "k \<in> fst ` set a" using assms(1) by (metis map_of_eq_None_iff option.distinct(1))
  then have k: "k \<in> set (keysOf a a)" by (simp add: keysOf_def set_new_Set Object_keys_def)
  have "\<forall>x\<in>set (map (\<lambda>k. valOf a k * valOf a k) (keysOf a a)). x = 0"
    using z unfolding dotOf_def by (subst (asm) sum_list_nonneg_eq_0_iff) auto
  with k have "valOf a k * valOf a k = 0" by auto
  then have "valOf a k = 0" by simp
  with assms show False by (simp add: valOf_def Object_get_def)
qed

lemma fractionVector_cosine:
  assumes "fractionVector a"
  shows "cosineSimilarity a a = Num 1"
proof -
  from assms obtain k v where kv: "(k, v) \<in> set a" "v \<noteq> Num 0"
    by (auto simp: fractionVector_def list_ex_iff)
  from assms kv(1) have "fraction4 v"
    by (auto simp: fractionVector_def list_all_iff)
  with kv(2) obtain x where x: "v = Num x" "x \<noteq> 0"
    by (cases v) (auto simp: fraction4_def)
  from assms kv(1) have "map_of a k = Some v"
    by (simp add: fractionVector_def)
  with x have "dotOf a a (keysOf a a) \<noteq> 0" by (intro dotOf_self_pos) simp_all
  then have "cosineOf a a = 1" by (rule cosineOf_self)
  then show ?thesis by (simp add: cosineSimilarity_Num [OF plainRead_self])
qed

lemma cosineSimilarity_empty: "cosineSimilarity [] [] = Num 0"
  by (simp add: cosineSimilarity_def cosineSums_def Object_keys_def new_Set_def mul_def)

lemma round4_Num: "round4 (Num s) = Num (of_int \<lfloor>s * 10000 + 1 / 2\<rfloor> / 10000)"
  by (simp add: round4_def Math_round_def mul_def)

lemma round4_unit:
  assumes "0 \<le> s" "s \<le> 1"
  shows "\<exists>r. round4 (Num s) = Num r \<and> 0 \<le> r \<and> r \<le> 1"
proof -
  define r :: real where "r = of_int \<lfloor>s * 10000 + 1 / 2\<rfloor> / 10000"
  have "0 \<le> \<lfloor>s * 10000 + 1 / 2\<rfloor>" using assms by simp
  then have lo: "0 \<le> r" by (simp add: r_def)
  have "s * 10000 + 1 / 2 < 10001" using assms by simp
  then have "\<lfloor>s * 10000 + 1 / 2\<rfloor> < 10001" by (simp add: floor_less_iff)
  then have "\<lfloor>s * 10000 + 1 / 2\<rfloor> \<le> 10000" by simp
  then have "real_of_int \<lfloor>s * 10000 + 1 / 2\<rfloor> \<le> 10000" by linarith
  then have hi: "r \<le> 1" by (simp add: r_def)
  have "round4 (Num s) = Num r" by (simp only: round4_Num r_def)
  with lo hi show ?thesis by blast
qed

lemma timezoneScore_half:
  "ta = None \<or> tb = None \<Longrightarrow> timezoneScore ta tb = Num (1 / 2)"
  by (auto simp: timezoneScore_def split: option.splits)

lemma timezoneScore_Num:
  "timezoneScore (Some (Num x)) (Some (Num y)) = Num (max 0 (1 - \<bar>x - y\<bar> / 12))"
  by (simp add: timezoneScore_def Math_abs_def Math_max_def sub_def)


section \<open>Claims on the matcher\<close>

text \<open>
  C1. The claim is what the code documents (\<open>@returns Compatibility score from 0 to 1\<close>,
  \<open>Missing keys are treated as 0\<close>), and the code does not keep it. A key that one profile
  has and the other lacks is read in the other as \<open>b[key] || 0\<close>; when the key is a name that
  every object inherits, the read is a function and not \<open>undefined\<close>, the function is truthy,
  and its product with a Number is NaN, which goes through the norm, the quotient, the
  weighted sum and \<open>round4\<close>. The profile with the one language \<open>constructor\<close> is well-formed,
  and against the empty profile it scores NaN.
\<close>

theorem inherited_key_score:
  "computeCompatibility
     \<lparr>languages = [(''constructor'', Num 1)], commitTraits = [], activityScore = Num 0,
      highlights = [], timezoneOffset = None\<rparr>
     emptyProfile = NaN"
  by (simp add: computeCompatibility_def emptyProfile_def cosineSimilarity_def cosineSums_def
      Object_keys_def new_Set_def Set_add_def Object_get_def Object_prototype_names_def
      add_def mul_def sub_def round4_def Math_round_def)

text \<open>
  C7. The claim is again what the code documents (\<open>Returns 0 if either vector is
  zero-length\<close>), and the same defect breaks it. The empty vector has norm zero, but against
  the vector with the one key \<open>constructor\<close> the loop reads the inherited function for the
  empty vector: its norm and the dot product are NaN, the magnitude is NaN, the guard
  \<open>magnitude === 0\<close> does not hold, and the similarity is NaN.
\<close>

theorem inherited_key_cosine:
  "cosineSums [(''constructor'', Num 1)] [] = (NaN, Num 1, NaN) \<and>
   cosineSimilarity [(''constructor'', Num 1)] [] = NaN"
  by (simp add: cosineSimilarity_def cosineSums_def Object_keys_def new_Set_def Set_add_def
      Object_get_def Object_prototype_names_def add_def mul_def)

text \<open>
  C8, as stated, fails: two profiles identical in languages, traits and activity, twelve
  hours apart, do not always score \<open>0.9\<close>. With empty (or all-zero) vectors both cosines
  are \<open>0\<close> by the guard on a zero magnitude, and the score is \<open>0.2\<close>.
\<close>

theorem timezone_counterexample:
  "computeCompatibility (emptyProfile\<lparr>timezoneOffset := Some (Num (- 6))\<rparr>)
                        (emptyProfile\<lparr>timezoneOffset := Some (Num 6)\<rparr>) = Num (2 / 10) \<and>
   Num (2 / 10) \<noteq> Num (9 / 10)"
proof -
  have "computeCompatibility (emptyProfile\<lparr>timezoneOffset := Some (Num (- 6))\<rparr>)
                        (emptyProfile\<lparr>timezoneOffset := Some (Num 6)\<rparr>) = round4 (Num (2 / 10))"
    by (simp add: computeCompatibility_def emptyProfile_def cosineSimilarity_empty
        timezoneScore_Num add_def mul_def sub_def Math_abs_def)
  also have "\<dots> = Num (2 / 10)"
    by (simp add: round4_Num)
  finally show ?thesis by simp
qed

text \<open>
  C8, amended. The timezone term is \<open>max 0 (1 - |x - y| / 12)\<close> when both offsets are
  numbers, hence never negative and \<open>0\<close> from a difference of twelve hours on; it is \<open>0.5\<close>
  when an offset is absent. Two profiles with the same languages and the same traits,
  both vectors of fractions of four decimals that are not all zero, with the same activity
  score of \<open>[0,1]\<close>, and whose offsets differ by exactly twelve hours, score exactly \<open>0.9\<close>.
\<close>

theorem timezone_term:
  "timezoneScore (Some (Num x)) (Some (Num y)) = Num (max 0 (1 - \<bar>x - y\<bar> / 12)) \<and>
   0 \<le> max 0 (1 - \<bar>x - y\<bar> / 12) \<and>
   (12 \<le> \<bar>x - y\<bar> \<longrightarrow> timezoneScore (Some (Num x)) (Some (Num y)) = Num 0) \<and>
   timezoneScore None tb = Num (1 / 2) \<and>
   timezoneScore ta None = Num (1 / 2) \<and>
   (languages p = languages q \<and> commitTraits p = commitTraits q \<and>
    fractionVector (languages p) \<and> fractionVector (commitTraits p) \<and>
    activityScore p = Num s \<and> activityScore q = Num s \<and> 0 \<le> s \<and> s \<le> 1 \<and>
    timezoneOffset p = Some (Num x) \<and> timezoneOffset q = Some (Num y) \<and> \<bar>x - y\<bar> = 12
      \<longrightarrow> computeCompatibility p q = Num (9 / 10))"
proof (intro conjI impI)
  show "timezoneScore (Some (Num x)) (Some (Num y)) = Num (max 0 (1 - \<bar>x - y\<bar> / 12))"
    by (rule timezoneScore_Num)
  show "0 \<le> max 0 (1 - \<bar>x - y\<bar> / 12)" by simp
  show "timezoneScore None tb = Num (1 / 2)" by (simp add: timezoneScore_half)
  show "timezoneScore ta None = Num (1 / 2)" by (simp add: timezoneScore_half)
next
  assume "12 \<le> \<bar>x - y\<bar>"
  then show "timezoneScore (Some (Num x)) (Some (Num y)) = Num 0"
    by (simp add: timezoneScore_Num)
next
  assume h: "languages p = languages q \<and> commitTraits p = commitTraits q \<and>
    fractionVector (languages p) \<and> fractionVector (commitTraits p) \<and>
    activityScore p = Num s \<and> activityScore q = Num s \<and> 0 \<le> s \<and> s \<le> 1 \<and>
    timezoneOffset p = Some (Num x) \<and> timezoneOffset q = Some (Num y) \<and> \<bar>x - y\<bar> = 12"
  from h have eqs: "languages q = languages p" "commitTraits q = commitTraits p"
    and act: "activityScore p = Num s" "activityScore q = Num s"
    and fv: "fractionVector (languages p)" "fractionVector (commitTraits p)"
    and tz: "timezoneOffset p = Some (Num x)" "timezoneOffset q = Some (Num y)"
    and d: "\<bar>x - y\<bar> = 12"
    by metis+
  have T: "cosineSimilarity (languages p) (languages p) = Num 1"
    using fv(1) by (rule fractionVector_cosine)
  have R: "cosineSimilarity (commitTraits p) (commitTraits p) = Num 1"
    using fv(2) by (rule fractionVector_cosine)
  have L: "timezoneScore (Some (Num x)) (Some (Num y)) = Num 0"
    using d by (simp add: timezoneScore_Num)
  have "computeCompatibility p q = round4 (Num (9 / 10))"
    by (simp add: computeCompatibility_def eqs act tz T R L add_def mul_def sub_def Math_abs_def)
  also have "\<dots> = Num (9 / 10)"
    by (simp add: round4_Num)
  finally show "computeCompatibility p q = Num (9 / 10)" .
qed

theorem timezone_term_witness:
  "fractionVector (languages tzProfileA) \<and> fractionVector (commitTraits tzProfileA) \<and>
   \<bar>- 6 - 6 :: real\<bar> = 12 \<and>
   timezoneScore (Some (Num (- 6))) (Some (Num 6)) = Num 0 \<and>
   computeCompatibility tzProfileA tzProfileB = Num (9 / 10)"
  using timezone_term [where x = "- 6" and y = 6 and p = tzProfileA and q = tzProfileB
      and s = "5 / 10"]
  by (simp add: tzProfileA_def tzProfileB_def fractionVector_def fraction4_def)

section \<open>Lemmas on the parser: counting the traits\<close>

lemma Object_set_present:
  "k \<in> fst ` set obj \<Longrightarrow> distinct (map fst obj) \<Longrightarrow>
     Object_set obj k v = map (\<lambda>(k', v'). (k', if k' = k then v else v')) obj"
proof (induction obj)
  case Nil
  then show ?case by simp
next
  case (Cons e obj)
  obtain k' v' where e: "e = (k', v')" by (cases e)
  show ?case
  proof (cases "k' = k")
    case True
    with Cons.prems e have "k \<notin> fst ` set obj" by auto
    then have "map (\<lambda>(k', v'). (k', if k' = k then v else v')) obj = obj"
      by (induction obj) auto
    with True e show ?thesis by simp
  next
    case False
    with Cons e show ?thesis by auto
  qed
qed

lemma Object_increment_present:
  assumes "k \<in> fst ` set obj" "distinct (map fst obj)"
  shows "Object_increment obj k = map (\<lambda>(k', v'). (k', if k' = k then add v' (Num 1) else v')) obj"
proof -
  from assms(1) obtain v where v: "(k, v) \<in> set obj" by auto
  with assms(2) have m: "map_of obj k = Some v" by simp
  have "map (\<lambda>(k', v'). (k', if k' = k then add v (Num 1) else v')) obj
      = map (\<lambda>(k', v'). (k', if k' = k then add v' (Num 1) else v')) obj"
  proof (rule map_cong [OF refl])
    fix e assume e: "e \<in> set obj"
    obtain k' v' where kv: "e = (k', v')" by (cases e)
    have "v' = v" if "k' = k"
      using eq_key_imp_eq_value [OF assms(2) v, of v'] e kv that by simp
    then show "(case e of (k', v') \<Rightarrow> (k', if k' = k then add v (Num 1) else v'))
           = (case e of (k', v') \<Rightarrow> (k', if k' = k then add v' (Num 1) else v'))"
      by (auto simp: kv)
  qed
  then show ?thesis
    by (simp add: Object_increment_def m Object_set_present [OF assms])
qed

lemma foldl_traitStep:
  assumes "distinct (map fst kws)" "fst ` set kws \<subseteq> fst ` set obj" "distinct (map fst obj)"
  shows "foldl (traitStep msg) obj kws =
     map (\<lambda>(k, v). (k, if (\<exists>p. (k, p) \<in> set kws \<and> RegExp_test p msg) then add v (Num 1) else v)) obj"
  using assms
proof (induction kws arbitrary: obj)
  case Nil
  then show ?case by simp
next
  case (Cons e kws)
  obtain t p where e: "e = (t, p)" by (cases e)
  let ?obj' = "traitStep msg obj (t, p)"
  have keys: "map fst ?obj' = map fst obj"
    using Cons.prems e by (simp add: Object_increment_present comp_def case_prod_unfold)
  have t: "t \<in> fst ` set obj" "t \<notin> fst ` set kws" using Cons.prems e by auto
  have "foldl (traitStep msg) obj (e # kws) = foldl (traitStep msg) ?obj' kws"
    by (simp add: e)
  also have "\<dots> = map (\<lambda>(k, v). (k, if (\<exists>p. (k, p) \<in> set kws \<and> RegExp_test p msg) then add v (Num 1) else v)) ?obj'"
  proof (rule Cons.IH)
    show "distinct (map fst kws)" using Cons.prems by simp
    show "distinct (map fst ?obj')" using Cons.prems keys by simp
    have "fst ` set ?obj' = fst ` set obj" using keys by (metis set_map)
    then show "fst ` set kws \<subseteq> fst ` set ?obj'" using Cons.prems by simp
  qed
  also have "\<dots> = map (\<lambda>(k, v). (k, if (\<exists>p. (k, p) \<in> set (e # kws) \<and> RegExp_test p msg) then add v (Num 1) else v)) obj"
  proof (cases "RegExp_test p msg")
    case True
    then have "?obj' = map (\<lambda>(k', v'). (k', if k' = t then add v' (Num 1) else v')) obj"
      using t Cons.prems by (simp add: Object_increment_present)
    then show ?thesis using t True e
      by (auto simp: case_prod_unfold image_iff)
  next
    case False
    then have "?obj' = obj" by simp
    then show ?thesis using t False e
      by (auto simp: case_prod_unfold image_iff)
  qed
  finally show ?case .
qed

lemma keys_TRAIT_KEYWORDS: "map fst TRAIT_KEYWORDS = traitNames"
  by (simp add: TRAIT_KEYWORDS_def traitNames_def)

lemma distinct_traitNames: "distinct traitNames"
  by (simp add: traitNames_def)

lemma matchesTrait_iff:
  "matchesTrait t msg \<longleftrightarrow> (\<exists>p. (t, p) \<in> set TRAIT_KEYWORDS \<and> RegExp_test p (toLowerCase msg))"
proof -
  have d: "distinct (map fst TRAIT_KEYWORDS)"
    by (simp add: keys_TRAIT_KEYWORDS distinct_traitNames)
  show ?thesis
  proof (cases "map_of TRAIT_KEYWORDS t")
    case None
    then have "\<And>p. (t, p) \<notin> set TRAIT_KEYWORDS"
      by (metis d map_of_eq_Some_iff option.distinct(1))
    with None show ?thesis by (simp add: matchesTrait_def)
  next
    case (Some q)
    then have "\<And>p. (t, p) \<in> set TRAIT_KEYWORDS \<longleftrightarrow> p = q"
      by (metis d map_of_eq_Some_iff option.inject)
    with Some show ?thesis by (simp add: matchesTrait_def)
  qed
qed

lemma commitStep_counts:
  "commitStep (map (\<lambda>t. (t, Num (real (n t)))) traitNames) c =
     map (\<lambda>t. (t, Num (real (n t + (if matchesTrait t (message c) then 1 else 0))))) traitNames"
proof -
  let ?obj = "map (\<lambda>t. (t, Num (real (n t)))) traitNames"
  have k: "map fst ?obj = traitNames" by (simp add: comp_def)
  have "commitStep ?obj c =
      map (\<lambda>(k, v). (k, if (\<exists>p. (k, p) \<in> set TRAIT_KEYWORDS \<and> RegExp_test p (toLowerCase (message c)))
                        then add v (Num 1) else v)) ?obj"
    unfolding commitStep_def Let_def
  proof (rule foldl_traitStep)
    show "distinct (map fst TRAIT_KEYWORDS)" by (simp add: keys_TRAIT_KEYWORDS distinct_traitNames)
    show "distinct (map fst ?obj)" by (simp only: k distinct_traitNames)
    have "fst ` set ?obj = set traitNames" by (metis k set_map)
    then show "fst ` set TRAIT_KEYWORDS \<subseteq> fst ` set ?obj"
      by (metis keys_TRAIT_KEYWORDS set_map subset_refl)
  qed
  also have "\<dots> = map (\<lambda>t. (t, Num (real (n t + (if matchesTrait t (message c) then 1 else 0))))) traitNames"
    by (simp add: matchesTrait_iff add_def comp_def)
  finally show ?thesis .
qed

lemma foldl_commitStep:
  "foldl commitStep (map (\<lambda>t. (t, Num (real (n t)))) traitNames) commits =
     map (\<lambda>t. (t, Num (real (n t + traitCount t commits)))) traitNames"
proof (induction commits arbitrary: n)
  case Nil
  then show ?case by (simp add: traitCount_def)
next
  case (Cons c commits)
  have "map (\<lambda>t. (t, Num (real (n t + (if matchesTrait t (message c) then 1 else 0) + traitCount t commits)))) traitNames
      = map (\<lambda>t. (t, Num (real (n t + traitCount t (c # commits))))) traitNames"
    by (simp add: traitCount_def)
  then show ?case
    by (simp only: foldl_Cons commitStep_counts Cons.IH)
qed

lemma countTraits_eq:
  "countTraits commits = map (\<lambda>t. (t, Num (real (traitCount t commits)))) traitNames"
  using foldl_commitStep [of "\<lambda>_. 0" commits]
  by (simp add: countTraits_def traitCounts0_def traitNames_def)

section \<open>Lemmas on the parser: the normalised traits\<close>

lemma Object_set_absent:
  "k \<notin> fst ` set obj \<Longrightarrow> Object_set obj k v = obj @ [(k, v)]"
  by (induction obj) auto

lemma foldl_Object_set:
  assumes "distinct (map fst xs)" "fst ` set xs \<inter> fst ` set acc = {}"
  shows "foldl (\<lambda>obj (k, v). Object_set obj k (f v)) acc xs = acc @ map (\<lambda>(k, v). (k, f v)) xs"
  using assms
proof (induction xs arbitrary: acc)
  case Nil
  then show ?case by simp
next
  case (Cons e xs)
  obtain k v where e: "e = (k, v)" by (cases e)
  have k: "k \<notin> fst ` set acc" using Cons.prems e by auto
  have "foldl (\<lambda>obj (k, v). Object_set obj k (f v)) acc (e # xs)
      = foldl (\<lambda>obj (k, v). Object_set obj k (f v)) (acc @ [(k, f v)]) xs"
    by (simp add: e Object_set_absent [OF k])
  also have "\<dots> = (acc @ [(k, f v)]) @ map (\<lambda>(k, v). (k, f v)) xs"
    using Cons.prems e by (intro Cons.IH) auto
  finally show ?case by (simp add: e)
qed

lemma normalizeTraits_eq:
  "distinct (map fst counts) \<Longrightarrow>
     normalizeTraits counts tot = map (\<lambda>(t, c). (t, round4 (divide_num c tot))) counts"
  unfolding normalizeTraits_def
  using foldl_Object_set [of counts "[]" "\<lambda>c. round4 (divide_num c tot)"] by simp

lemma commitTraits_parseCommits:
  assumes "commits \<noteq> []"
  shows "commitTraits (parseCommits getTime commits rl now) =
           map (\<lambda>t. (t, Num (traitValue t commits))) traitNames"
proof -
  have d: "distinct (map fst (countTraits commits))"
    by (simp add: countTraits_eq comp_def distinct_traitNames)
  have len: "real (length commits) \<noteq> 0" using assms by simp
  have "commitTraits (parseCommits getTime commits rl now) =
      normalizeTraits (countTraits commits) (Num (real (length commits)))"
    using assms by (simp add: parseCommits_def Let_def)
  also have "\<dots> = map (\<lambda>(t, c). (t, round4 (divide_num c (Num (real (length commits))))))
                        (countTraits commits)"
    by (rule normalizeTraits_eq [OF d])
  also have "\<dots> = map (\<lambda>t. (t, Num (traitValue t commits))) traitNames"
    using len by (simp add: countTraits_eq comp_def round4_Num traitValue_def)
  finally show ?thesis .
qed

lemma traitCount_le: "traitCount t commits \<le> length commits"
  by (simp add: traitCount_def)

lemma traitValue_unit:
  assumes "commits \<noteq> []"
  shows "0 \<le> traitValue t commits \<and> traitValue t commits \<le> 1"
proof -
  define q where "q = real (traitCount t commits) / real (length commits)"
  have "0 \<le> q" "q \<le> 1"
    using assms traitCount_le [of t commits] by (simp_all add: q_def)
  then obtain r where "round4 (Num q) = Num r" "0 \<le> r" "r \<le> 1"
    using round4_unit by blast
  then show ?thesis by (simp add: round4_Num traitValue_def q_def)
qed

section \<open>Lemmas on the parser: evaluating the patterns\<close>

lemma matchHere_exact:
  "list_all lowerAtom alt \<Longrightarrow> matchHere alt s = matchExact alt (map toLowerChar s)"
  by (induction alt s rule: matchHere.induct) auto

lemma RegExp_test_exact:
  assumes "list_all (list_all lowerAtom) re"
  shows "RegExp_test re s = testExact re (map toLowerChar s)"
proof -
  have "list_ex (\<lambda>alt. matchHere alt s) re = list_ex (\<lambda>alt. matchExact alt (map toLowerChar s)) re"
    for s using assms by (induction re) (auto simp: matchHere_exact)
  then show ?thesis by (induction s) auto
qed

lemma toLowerChar_idem: "toLowerChar (toLowerChar c) = toLowerChar c"
proof (cases "c \<in> set ''ABCDEFGHIJKLMNOPQRSTUVWXYZ''")
  case True
  then show ?thesis by (auto simp: toLowerChar_def)
next
  case False
  then have "toLowerChar c = c" by (simp add: toLowerChar_def)
  then show ?thesis by simp
qed

lemma toLowerCase_idem: "map toLowerChar (toLowerCase s) = toLowerCase s"
  by (simp add: toLowerCase_def toLowerChar_idem)

lemma TRAIT_KEYWORDS_lower:
  "list_all (\<lambda>(t, pattern). list_all (list_all lowerAtom) pattern) TRAIT_KEYWORDS"
  by code_simp

lemma matchesTrait_exact: "matchesTrait t msg = matchesExact t msg"
proof (cases "map_of TRAIT_KEYWORDS t")
  case None
  then show ?thesis by (simp add: matchesTrait_def matchesExact_def)
next
  case (Some p)
  then have "(t, p) \<in> set TRAIT_KEYWORDS" by (rule map_of_SomeD)
  with TRAIT_KEYWORDS_lower have "list_all (list_all lowerAtom) p"
    by (auto simp: list_all_iff)
  then show ?thesis
    using Some by (simp add: matchesTrait_def matchesExact_def RegExp_test_exact toLowerCase_idem)
qed

lemma scenario_lower:
  "map toLowerCase scenarioMessages =
     [''fix: resolve null pointer bug'', ''fix: crash on login'', ''add unit test for parser'',
      ''update readme docs'', ''chore: bump dependencies'']"
  by code_simp

lemma scenario_exact:
  "map (\<lambda>(t, pattern). map (testExact pattern)
         [''fix: resolve null pointer bug'', ''fix: crash on login'', ''add unit test for parser'',
          ''update readme docs'', ''chore: bump dependencies'']) TRAIT_KEYWORDS =
     [[True, True, False, False, False],
      [False, False, True, False, False],
      [False, False, False, True, False],
      [False, False, False, False, False],
      [False, False, False, False, True],
      [False, False, False, False, False]]"
  by code_simp

lemma map_of_TRAIT_KEYWORDS:
  "map (map_of TRAIT_KEYWORDS) traitNames = map (Some \<circ> snd) TRAIT_KEYWORDS"
  by (simp add: TRAIT_KEYWORDS_def traitNames_def)

lemma matches_table:
  "map (\<lambda>t. map (matchesTrait t) msgs) traitNames =
     map (\<lambda>(t, pattern). map (testExact pattern) (map toLowerCase msgs)) TRAIT_KEYWORDS"
proof -
  have "map (\<lambda>t. map (matchesTrait t) msgs) traitNames
      = map (\<lambda>po. case po of Some pattern \<Rightarrow> map (testExact pattern) (map toLowerCase msgs)
                              | None \<Rightarrow> map (\<lambda>_. False) msgs)
          (map (map_of TRAIT_KEYWORDS) traitNames)"
    by (simp add: matchesTrait_exact matchesExact_def comp_def split: option.splits)
  also have "\<dots> = map (\<lambda>(t, pattern). map (testExact pattern) (map toLowerCase msgs)) TRAIT_KEYWORDS"
    by (simp add: map_of_TRAIT_KEYWORDS comp_def case_prod_unfold)
  finally show ?thesis .
qed

lemma scenario_table:
  "map (\<lambda>t. map (matchesTrait t) scenarioMessages) traitNames =
     [[True, True, False, False, False],
      [False, False, True, False, False],
      [False, False, False, True, False],
      [False, False, False, False, False],
      [False, False, False, False, True],
      [False, False, False, False, False]]"
  unfolding matches_table by (simp only: scenario_lower scenario_exact)

lemma traitCount_messages:
  "traitCount t commits = length (filter (matchesTrait t) (map message commits))"
  by (simp add: traitCount_def filter_map comp_def)

lemma scenario_counts:
  assumes "map message commits = scenarioMessages"
  shows "map (\<lambda>t. traitCount t commits) traitNames = [2, 1, 1, 0, 1, 0]"
  using scenario_table
  by (simp add: traitCount_messages assms traitNames_def scenarioMessages_def)

lemma scenario_values:
  assumes "map message commits = scenarioMessages"
  shows "map (\<lambda>t. traitValue t commits) traitNames = [4 / 10, 2 / 10, 2 / 10, 0, 2 / 10, 0]"
proof -
  have "length (map message commits) = 5" by (simp add: assms scenarioMessages_def)
  then have len: "length commits = 5" by simp
  have f: "\<lfloor>(4001 :: real) / 2\<rfloor> = 2000" "\<lfloor>(8001 :: real) / 2\<rfloor> = 4000"
    by (simp_all add: floor_eq_iff)
  show ?thesis
    using scenario_counts [OF assms]
    by (simp add: traitValue_def len traitNames_def f)
qed

lemma scenario_highlights:
  "computeHighlights
     [(''fixer'', Num (4 / 10)), (''tests'', Num (2 / 10)), (''docs'', Num (2 / 10)),
      (''wip'', Num 0), (''chores'', Num (2 / 10)), (''chaotic'', Num 0)] = ''fixer, chores''"
  by (simp add: computeHighlights_def Array_sort_def compareTraits_def sub_def)

lemma highlights_parseCommits:
  "commits \<noteq> [] \<Longrightarrow>
     highlights (parseCommits getTime commits rl now) =
       computeHighlights (commitTraits (parseCommits getTime commits rl now))"
  by (simp add: parseCommits_def Let_def)

section \<open>Claims on the traits\<close>

text \<open>
  C5. For five commits with the messages of the scenario, whatever their timestamps and
  repositories, the language map and the reference time: \<open>fixer = 0.4\<close>, \<open>tests = 0.2\<close>,
  \<open>docs = 0.2\<close>, \<open>wip = 0\<close>, \<open>chores = 0.2\<close>, \<open>chaotic = 0\<close>, and the highlights are
  \<open>fixer, chores\<close>.
\<close>

theorem scenario_trait_counting:
  assumes "map message commits = scenarioMessages"
  shows "commitTraits (parseCommits getTime commits repoLanguages now) =
           [(''fixer'', Num (4 / 10)), (''tests'', Num (2 / 10)), (''docs'', Num (2 / 10)),
            (''wip'', Num 0), (''chores'', Num (2 / 10)), (''chaotic'', Num 0)] \<and>
         highlights (parseCommits getTime commits repoLanguages now) = ''fixer, chores''"
proof -
  have "length (map message commits) = 5" by (simp add: assms scenarioMessages_def)
  then have ne: "commits \<noteq> []" by auto
  have v: "traitValue ''fixer'' commits = 4 / 10" "traitValue ''tests'' commits = 2 / 10"
      "traitValue ''docs'' commits = 2 / 10" "traitValue ''wip'' commits = 0"
      "traitValue ''chores'' commits = 2 / 10" "traitValue ''chaotic'' commits = 0"
    using scenario_values [OF assms] by (simp_all add: traitNames_def)
  have traits: "commitTraits (parseCommits getTime commits repoLanguages now) =
           [(''fixer'', Num (4 / 10)), (''tests'', Num (2 / 10)), (''docs'', Num (2 / 10)),
            (''wip'', Num 0), (''chores'', Num (2 / 10)), (''chaotic'', Num 0)]"
    by (simp add: commitTraits_parseCommits [OF ne] traitNames_def v)
  show ?thesis
    by (simp only: traits highlights_parseCommits [OF ne] scenario_highlights)
qed

theorem scenario_trait_counting_witness:
  "map message scenarioCommits = scenarioMessages \<and>
   commitTraits (parseCommits (\<lambda>_. NaN) scenarioCommits None (Num 0)) =
           [(''fixer'', Num (4 / 10)), (''tests'', Num (2 / 10)), (''docs'', Num (2 / 10)),
            (''wip'', Num 0), (''chores'', Num (2 / 10)), (''chaotic'', Num 0)] \<and>
   highlights (parseCommits (\<lambda>_. NaN) scenarioCommits None (Num 0)) = ''fixer, chores''"
proof -
  have m: "map message scenarioCommits = scenarioMessages"
    by (simp add: scenarioCommits_def scenarioMessages_def)
  from scenario_trait_counting [OF m, of "\<lambda>_. NaN" None "Num 0"] m show ?thesis
    by blast
qed

section \<open>Unanchored matching\<close>

lemma matchHere_word: "w \<in> set (wordsOf alt) \<Longrightarrow> matchHere alt (w @ v)"
proof (induction alt arbitrary: w)
  case Nil
  then show ?case by simp
next
  case (Cons a alt)
  show ?case
  proof (cases a)
    case (Ch c)
    with Cons.prems obtain w' where "w = c # w'" "w' \<in> set (wordsOf alt)" by auto
    with Cons.IH Ch show ?thesis by simp
  next
    case (Opt c)
    with Cons.prems consider w' where "w = c # w'" "w' \<in> set (wordsOf alt)"
      | "w \<in> set (wordsOf alt)" by auto
    then show ?thesis
    proof cases
      case 1
      with Cons.IH Opt show ?thesis by simp
    next
      case 2
      then have "matchHere alt (w @ v)" by (rule Cons.IH)
      with Opt show ?thesis by (cases "w @ v") simp_all
    qed
  qed
qed

lemma RegExp_test_here: "list_ex (\<lambda>alt. matchHere alt s) re \<Longrightarrow> RegExp_test re s"
  by (cases s) simp_all

lemma RegExp_test_append: "RegExp_test re s \<Longrightarrow> RegExp_test re (u @ s)"
  by (induction u) simp_all

lemma RegExp_test_substring:
  assumes "kw \<in> set (keywordsOf re)"
  shows "RegExp_test re (u @ kw @ v)"
proof -
  from assms obtain alt where "alt \<in> set re" "kw \<in> set (wordsOf alt)"
    by (auto simp: keywordsOf_def)
  then have "list_ex (\<lambda>alt. matchHere alt (kw @ v)) re"
    by (auto simp: list_ex_iff intro: matchHere_word)
  then show ?thesis by (intro RegExp_test_append RegExp_test_here)
qed

lemma map_of_countTraits:
  assumes "(t, pattern) \<in> set TRAIT_KEYWORDS"
  shows "map_of (countTraits commits) t =
           Some (Num (real (length (filter (\<lambda>c. RegExp_test pattern (toLowerCase (message c))) commits))))"
proof -
  have d: "distinct (map fst TRAIT_KEYWORDS)"
    by (simp add: keys_TRAIT_KEYWORDS distinct_traitNames)
  with assms have m: "map_of TRAIT_KEYWORDS t = Some pattern" by simp
  have t: "t \<in> set traitNames"
    using assms keys_TRAIT_KEYWORDS by (metis fst_conv image_eqI set_map)
  have "map_of (countTraits commits) t = Some (Num (real (traitCount t commits)))"
    unfolding countTraits_eq using t by (simp add: map_of_map_restrict)
  then show ?thesis by (simp add: traitCount_def matchesTrait_def m)
qed

text \<open>
  C10. Matching is unanchored and knows no word boundary: when the lower-cased message of
  a commit contains a keyword of a trait anywhere, inside a longer word or not, the
  pattern of the trait matches, and the count of the trait is the number of the commits
  that match, this commit among them. So a commit whose message has \<open>Dockerfile\<close>,
  \<open>latest\<close> and \<open>template\<close> counts for \<open>docs\<close>, \<open>tests\<close> and \<open>wip\<close>.
\<close>

theorem trait_matching_unanchored:
  assumes "(t, pattern) \<in> set TRAIT_KEYWORDS"
      and "kw \<in> set (keywordsOf pattern)"
      and "toLowerCase (message c) = u @ kw @ v"
      and "c \<in> set commits"
  shows "RegExp_test pattern (toLowerCase (message c)) \<and>
         c \<in> set (filter (\<lambda>c. RegExp_test pattern (toLowerCase (message c))) commits) \<and>
         map_of (countTraits commits) t =
           Some (Num (real (length (filter (\<lambda>c. RegExp_test pattern (toLowerCase (message c))) commits))))"
proof -
  have "RegExp_test pattern (toLowerCase (message c))"
    unfolding assms(3) using assms(2) by (rule RegExp_test_substring)
  with assms(4) map_of_countTraits [OF assms(1)] show ?thesis by simp
qed

theorem trait_matching_unanchored_witness:
  "map_of (countTraits [dockerCommit]) ''docs'' = Some (Num 1) \<and>
   map_of (countTraits [dockerCommit]) ''tests'' = Some (Num 1) \<and>
   map_of (countTraits [dockerCommit]) ''wip'' = Some (Num 1)"
proof -
  have low: "toLowerCase (message dockerCommit) = ''update dockerfile to latest template''"
    by code_simp
  have p: "(''docs'', patternOf ''docs'') \<in> set TRAIT_KEYWORDS"
      "(''tests'', patternOf ''tests'') \<in> set TRAIT_KEYWORDS"
      "(''wip'', patternOf ''wip'') \<in> set TRAIT_KEYWORDS"
    by (simp_all add: patternOf_def TRAIT_KEYWORDS_def)
  have k: "''doc'' \<in> set (keywordsOf (patternOf ''docs''))"
      "''test'' \<in> set (keywordsOf (patternOf ''tests''))"
      "''temp'' \<in> set (keywordsOf (patternOf ''wip''))"
    by (simp_all add: patternOf_def TRAIT_KEYWORDS_def keywordsOf_def lit_def)
  have s: "toLowerCase (message dockerCommit) = ''update '' @ ''doc'' @ ''kerfile to latest template''"
      "toLowerCase (message dockerCommit) = ''update dockerfile to la'' @ ''test'' @ '' template''"
      "toLowerCase (message dockerCommit) = ''update dockerfile to latest '' @ ''temp'' @ ''late''"
    unfolding low by simp_all
  have c: "dockerCommit \<in> set [dockerCommit]" by simp
  show ?thesis
    using trait_matching_unanchored [OF p(1) k(1) s(1) c]
          trait_matching_unanchored [OF p(2) k(2) s(2) c]
          trait_matching_unanchored [OF p(3) k(3) s(3) c]
    by simp
qed

section \<open>Lemmas on the parser: the activity score\<close>

lemma exp_minus_one_bounds: "36785 / 100000 \<le> exp (- 1 :: real) \<and> exp (- 1 :: real) < 36795 / 100000"
proof -
  obtain t :: real where t: "\<bar>t\<bar> \<le> \<bar>- 1 :: real\<bar>"
      and e: "exp (- 1 :: real) = (\<Sum>m<8. (- 1) ^ m / fact m) + exp t / fact 8 * (- 1) ^ 8"
    using Maclaurin_exp_le [of "- 1" 8] by blast
  have s: "(\<Sum>m<8. (- 1 :: real) ^ m / fact m) = 103 / 280"
    by (simp add: lessThan_Suc eval_nat_numeral)
  have "t \<le> 1" using t by simp
  then have "exp t \<le> exp 1" by simp
  also have "\<dots> \<le> 3" by (rule exp_le)
  finally have hi: "exp t \<le> 3" .
  define r where "r = exp t"
  have r: "0 < r" "r \<le> 3" using hi by (simp_all add: r_def)
  have f: "fact 8 = (40320 :: real)" by (simp add: eval_nat_numeral)
  have e': "exp (- 1 :: real) = 103 / 280 + r / 40320"
    unfolding e s f r_def by simp
  have "36785 / 100000 \<le> 103 / 280 + r / 40320" using r by linarith
  moreover have "103 / 280 + r / 40320 < 36795 / 100000" using r by linarith
  ultimately show ?thesis unfolding e' by blast
qed

lemma weightStep_Num:
  "getTime (date c) = Num x \<Longrightarrow>
     weightStep getTime (Num t) (Num a) c = Num (a + weightOf getTime t c)"
  by (simp add: weightStep_def daysSince_def Let_def sub_def neg_def Math_exp_def add_def
      weightOf_def numOf_def)

lemma weightStep_NaN_acc: "weightStep getTime now NaN c = NaN"
  by (simp add: weightStep_def Let_def add_def)

lemma weightStep_NaN_time: "getTime (date c) = NaN \<Longrightarrow> weightStep getTime now acc c = NaN"
  by (cases acc; cases now)
     (simp_all add: weightStep_def daysSince_def Let_def sub_def neg_def Math_exp_def add_def)

lemma foldl_weightStep_NaN: "foldl (weightStep getTime now) NaN commits = NaN"
  by (induction commits) (simp_all add: weightStep_NaN_acc)

lemma foldl_weightStep_Num:
  "\<forall>c\<in>set commits. getTime (date c) \<noteq> NaN \<Longrightarrow>
     foldl (weightStep getTime (Num t)) (Num a) commits =
       Num (a + (\<Sum>c\<leftarrow>commits. weightOf getTime t c))"
proof (induction commits arbitrary: a)
  case Nil
  then show ?case by simp
next
  case (Cons c commits)
  then obtain x where "getTime (date c) = Num x" by (cases "getTime (date c)") auto
  then have "weightStep getTime (Num t) (Num a) c = Num (a + weightOf getTime t c)"
    by (rule weightStep_Num)
  with Cons show ?case by (simp add: add.assoc)
qed

lemma foldl_weightStep_bad:
  "\<exists>c\<in>set commits. getTime (date c) = NaN \<Longrightarrow>
     foldl (weightStep getTime now) acc commits = NaN"
proof (induction commits arbitrary: acc)
  case Nil
  then show ?case by simp
next
  case (Cons c commits)
  show ?case
  proof (cases "getTime (date c) = NaN")
    case True
    then show ?thesis by (simp add: weightStep_NaN_time foldl_weightStep_NaN)
  next
    case False
    with Cons.prems have "\<exists>c\<in>set commits. getTime (date c) = NaN" by simp
    then show ?thesis by (simp add: Cons.IH)
  qed
qed

lemma round4_NaN: "round4 NaN = NaN"
  by (simp add: round4_def mul_def Math_round_def)

lemma computeActivity_bad:
  assumes "\<exists>c\<in>set commits. getTime (date c) = NaN"
  shows "computeActivity getTime commits now = NaN"
  by (simp add: computeActivity_def Let_def foldl_weightStep_bad [OF assms]
      Math_max_def Math_min_def round4_NaN)

lemma computeActivity_Num:
  assumes "\<forall>c\<in>set commits. getTime (date c) \<noteq> NaN" "commits \<noteq> []"
  shows "computeActivity getTime commits (Num t) =
           round4 (Num (min 1 (max 0 ((\<Sum>c\<leftarrow>commits. weightOf getTime t c)
                                       / min 100 (real (length commits))))))"
proof -
  have "min 100 (real (length commits)) \<noteq> 0" using assms(2) by (simp add: min_def)
  then show ?thesis
    by (simp add: computeActivity_def Let_def foldl_weightStep_Num [OF assms(1)]
        Math_max_def Math_min_def)
qed

lemma activityScore_parseCommits:
  "commits \<noteq> [] \<Longrightarrow>
     activityScore (parseCommits getTime commits rl now) = computeActivity getTime commits now"
  by (simp add: parseCommits_def Let_def)

lemma computeActivity_unit:
  assumes "\<forall>c\<in>set commits. getTime (date c) \<noteq> NaN" "commits \<noteq> []"
  shows "\<exists>s. computeActivity getTime commits (Num t) = Num s \<and> 0 \<le> s \<and> s \<le> 1"
  unfolding computeActivity_Num [OF assms]
  by (rule round4_unit) simp_all

lemma bad_table:
  "map (\<lambda>(t, pattern). map (testExact pattern) (map toLowerCase [''old commit 1'', ''wip'']))
     TRAIT_KEYWORDS =
     [[False, False], [False, False], [False, False], [False, True], [False, False],
      [False, False]]"
  by code_simp

lemma bad_values:
  "map (\<lambda>t. traitValue t badCommits) traitNames = [0, 0, 0, 1 / 2, 0, 0]"
proof -
  have m: "map message badCommits = [''old commit 1'', ''wip'']"
    by (simp add: badCommits_def)
  have "map (\<lambda>t. map (matchesTrait t) (map message badCommits)) traitNames =
     [[False, False], [False, False], [False, False], [False, True], [False, False],
      [False, False]]"
    unfolding m matches_table by (rule bad_table)
  then have "map (\<lambda>t. traitCount t badCommits) traitNames = [0, 0, 0, 1, 0, 0]"
    by (simp add: traitCount_messages m traitNames_def)
  moreover have "length badCommits = 2" by (simp add: badCommits_def)
  moreover have "\<lfloor>(10001 :: real) / 2\<rfloor> = 5000" by (simp add: floor_eq_iff)
  ultimately show ?thesis
    by (simp add: traitValue_def traitNames_def)
qed

section \<open>Lemmas on the parser: the outcome of a call\<close>

lemma repoStep_call_returns: "repoStep_call (Some rl) st r = Inr (repoStep rl st r)"
  by (cases "Object_get rl r")
     (simp_all add: repoStep_call_def repoStep_def property_of_def Object_entries_def)

lemma for_of_returns:
  "for_of (repoStep_call (Some rl)) st rs = Inr (foldl (repoStep rl) st rs)"
  by (induction rs arbitrary: st) (simp_all add: repoStep_call_returns)

lemma computeLanguages_call_returns:
  "computeLanguages_call commits repoLanguages = Inr (computeLanguages commits repoLanguages)"
proof (cases repoLanguages)
  case None
  then show ?thesis by (simp add: computeLanguages_call_def computeLanguages_def)
next
  case (Some rl)
  obtain lt g where tot: "languageTotals commits rl = (lt, g)"
    by (cases "languageTotals commits rl")
  then have "foldl (repoStep rl) ([], Num 0) (new_Set (map repo commits)) = (lt, g)"
    by (simp add: languageTotals_def)
  then show ?thesis
    by (simp add: Some computeLanguages_call_def computeLanguages_def for_of_returns tot)
qed

lemma parseCommits_call_returns:
  "parseCommits_call getTime commits repoLanguages now =
     Inr (parseCommits getTime commits repoLanguages now)"
  by (simp add: parseCommits_call_def parseCommits_def computeLanguages_call_returns Let_def)

section \<open>Claims on the activity score and on timestamps\<close>

text \<open>
  C6. Five commits, each exactly thirty days before the reference time: every weight is
  \<open>exp (- 1)\<close>, their sum over \<open>min 100 5 = 5\<close> is \<open>exp (- 1)\<close> again, inside \<open>[0,1]\<close>, and
  rounding to four decimals gives \<open>0.3679\<close>. The exponential is the real one; the bound
  \<open>0.36785 \<le> exp (- 1) < 0.36795\<close> leaves the double far from a rounding boundary.
\<close>

theorem activity_decay_scenario:
  assumes "length commits = 5"
      and "\<forall>c\<in>set commits. getTime (date c) = Num (t - 30 * 86400000)"
  shows "activityScore (parseCommits getTime commits repoLanguages (Num t)) = Num (3679 / 10000)"
proof -
  have ne: "commits \<noteq> []" using assms(1) by auto
  have w: "weightOf getTime t c = exp (- 1)" if "c \<in> set commits" for c
    using assms(2) that by (simp add: weightOf_def numOf_def)
  have "(\<Sum>c\<leftarrow>commits. weightOf getTime t c) = (\<Sum>c\<leftarrow>commits. exp (- 1))"
    by (rule arg_cong [where f = sum_list], rule map_cong [OF refl]) (rule w)
  also have "\<dots> = 5 * exp (- 1)"
    by (simp add: sum_list_replicate map_replicate_const assms(1))
  finally have sum: "(\<Sum>c\<leftarrow>commits. weightOf getTime t c) = 5 * exp (- 1)" .
  have parse: "\<forall>c\<in>set commits. getTime (date c) \<noteq> NaN" using assms(2) by simp
  have e: "36785 / 100000 \<le> exp (- 1 :: real)" "exp (- 1 :: real) < 36795 / 100000"
    using exp_minus_one_bounds by simp_all
  have clamp: "min 1 (max 0 (exp (- 1 :: real))) = exp (- 1)"
    using e by (simp add: min_def max_def)
  have "\<lfloor>exp (- 1 :: real) * 10000 + 1 / 2\<rfloor> = 3679"
    using e by (intro floor_unique) simp_all
  then have r: "round4 (Num (exp (- 1))) = Num (3679 / 10000)"
    by (simp add: round4_Num)
  show ?thesis
    by (simp add: activityScore_parseCommits [OF ne] computeActivity_Num [OF parse ne]
        sum assms(1) clamp r)
qed

theorem activity_decay_scenario_witness:
  "length oldCommits = 5 \<and>
   list_all (\<lambda>c. testClock (date c) = Num (1705320000000 - 30 * 86400000)) oldCommits \<and>
   activityScore (parseCommits testClock oldCommits None (Num 1705320000000)) = Num (3679 / 10000)"
proof -
  have l: "length oldCommits = 5" by (simp add: oldCommits_def)
  have d: "\<forall>c\<in>set oldCommits. testClock (date c) = Num (1705320000000 - 30 * 86400000)"
    by (simp add: oldCommits_def testClock_def)
  from activity_decay_scenario [OF l d, of None] l d show ?thesis
    unfolding list_all_iff by blast
qed

text \<open>
  C3, as stated, fails: \<open>parseCommits\<close> has no error to fail with. \<open>new Date\<close> of a
  string that is no date is an invalid date, and nothing throws: the call returns a
  profile. Here the second of two commits has the timestamp \<open>not a date\<close>.
\<close>

theorem unparseable_timestamp_counterexample:
  "testClock ''not a date'' = NaN \<and>
   parseCommits_call testClock badCommits None (Num 1705320000000) =
     Inr \<lparr>languages = [],
          commitTraits = [(''fixer'', Num 0), (''tests'', Num 0), (''docs'', Num 0),
                          (''wip'', Num (1 / 2)), (''chores'', Num 0), (''chaotic'', Num 0)],
          activityScore = NaN, highlights = ''wip'', timezoneOffset = None\<rparr>"
proof -
  let ?p = "parseCommits testClock badCommits None (Num 1705320000000)"
  have ne: "badCommits \<noteq> []" by (simp add: badCommits_def)
  have v: "traitValue ''fixer'' badCommits = 0" "traitValue ''tests'' badCommits = 0"
      "traitValue ''docs'' badCommits = 0" "traitValue ''wip'' badCommits = 1 / 2"
      "traitValue ''chores'' badCommits = 0" "traitValue ''chaotic'' badCommits = 0"
    using bad_values by (simp_all add: traitNames_def)
  have traits: "commitTraits ?p = [(''fixer'', Num 0), (''tests'', Num 0), (''docs'', Num 0),
                      (''wip'', Num (1 / 2)), (''chores'', Num 0), (''chaotic'', Num 0)]"
    by (simp add: commitTraits_parseCommits [OF ne] traitNames_def v)
  have hl: "highlights ?p = ''wip''"
    unfolding highlights_parseCommits [OF ne] traits
    by (simp add: computeHighlights_def Array_sort_def)
  have "\<exists>c\<in>set badCommits. testClock (date c) = NaN"
    by (simp add: badCommits_def testClock_def)
  then have act: "activityScore ?p = NaN"
    by (simp add: activityScore_parseCommits [OF ne] computeActivity_bad)
  have langs: "languages ?p = []"
    using ne by (simp add: parseCommits_def Let_def computeLanguages_def)
  have tz: "timezoneOffset ?p = None"
    by (simp add: parseCommits_def Let_def)
  have "?p = \<lparr>languages = [],
          commitTraits = [(''fixer'', Num 0), (''tests'', Num 0), (''docs'', Num 0),
                          (''wip'', Num (1 / 2)), (''chores'', Num 0), (''chaotic'', Num 0)],
          activityScore = NaN, highlights = ''wip'', timezoneOffset = None\<rparr>"
    using traits hl act langs tz by (cases ?p) simp
  moreover have "testClock ''not a date'' = NaN" by (simp add: testClock_def)
  ultimately show ?thesis by (simp add: parseCommits_call_returns)
qed

text \<open>
  C3, amended. No call of \<open>parseCommits\<close> throws, whatever the timestamps are: every call
  returns, and what it returns is the profile that the functions of the parser compute.
  The languages, the traits and the highlights of that profile do not depend on the
  timestamps. When all timestamps of the list parse, and the reference time is valid, the
  activity score is a number of \<open>[0,1]\<close>.
\<close>

theorem parseCommits_returns:
  "parseCommits_call getTime commits repoLanguages now =
     Inr (parseCommits getTime commits repoLanguages now) \<and>
   languages (parseCommits getTime commits repoLanguages now) =
     languages (parseCommits getTime' commits repoLanguages now') \<and>
   commitTraits (parseCommits getTime commits repoLanguages now) =
     commitTraits (parseCommits getTime' commits repoLanguages now') \<and>
   highlights (parseCommits getTime commits repoLanguages now) =
     highlights (parseCommits getTime' commits repoLanguages now') \<and>
   ((\<forall>c\<in>set commits. getTime (date c) \<noteq> NaN) \<longrightarrow>
      (\<exists>s. activityScore (parseCommits getTime commits repoLanguages (Num t)) = Num s \<and>
           0 \<le> s \<and> s \<le> 1))"
proof (intro conjI impI)
  show "parseCommits_call getTime commits repoLanguages now =
     Inr (parseCommits getTime commits repoLanguages now)"
    by (rule parseCommits_call_returns)
  show "languages (parseCommits getTime commits repoLanguages now) =
     languages (parseCommits getTime' commits repoLanguages now')"
    by (simp add: parseCommits_def Let_def)
  show "commitTraits (parseCommits getTime commits repoLanguages now) =
     commitTraits (parseCommits getTime' commits repoLanguages now')"
    by (simp add: parseCommits_def Let_def)
  show "highlights (parseCommits getTime commits repoLanguages now) =
     highlights (parseCommits getTime' commits repoLanguages now')"
    by (simp add: parseCommits_def Let_def)
next
  assume ok: "\<forall>c\<in>set commits. getTime (date c) \<noteq> NaN"
  show "\<exists>s. activityScore (parseCommits getTime commits repoLanguages (Num t)) = Num s \<and>
           0 \<le> s \<and> s \<le> 1"
  proof (cases "commits = []")
    case True
    then show ?thesis by (simp add: parseCommits_def)
  next
    case ne: False
    from computeActivity_unit [OF ok ne, of t] show ?thesis
      by (simp add: activityScore_parseCommits [OF ne])
  qed
qed

theorem parseCommits_returns_witness:
  "parseCommits_call testClock oldCommits (Some normLanguages) (Num 1705320000000) =
     Inr (parseCommits testClock oldCommits (Some normLanguages) (Num 1705320000000)) \<and>
   parseCommits_call testClock badCommits None NaN =
     Inr (parseCommits testClock badCommits None NaN) \<and>
   list_all (\<lambda>c. testClock (date c) \<noteq> NaN) oldCommits \<and>
   (\<exists>s. activityScore (parseCommits testClock oldCommits (Some normLanguages)
          (Num 1705320000000)) = Num s \<and> 0 \<le> s \<and> s \<le> 1)"
proof -
  have g: "\<forall>c\<in>set oldCommits. testClock (date c) \<noteq> NaN"
    by (simp add: oldCommits_def testClock_def)
  from parseCommits_returns [of testClock oldCommits "Some normLanguages" "Num 1705320000000"
      testClock "Num 1705320000000" 1705320000000]
    parseCommits_returns [of testClock badCommits None NaN testClock NaN 0] g
  show ?thesis unfolding list_all_iff by blast
qed

section \<open>Lemmas on the parser: the languages\<close>

lemma sumOfTotals_append: "sumOfTotals (xs @ ys) = sumOfTotals xs + sumOfTotals ys"
  by (simp add: sumOfTotals_def)

lemma sumOfTotals_replace:
  assumes "distinct (map fst obj)" "(k, Number (Num x)) \<in> set obj"
  shows "sumOfTotals (map (\<lambda>(k', v'). (k', if k' = k then Number (Num y) else v')) obj) =
           sumOfTotals obj - x + y"
  using assms
proof (induction obj)
  case Nil
  then show ?case by simp
next
  case (Cons e obj)
  obtain k' v' where e: "e = (k', v')" by (cases e)
  show ?case
  proof (cases "k' = k")
    case True
    with Cons.prems e have notin: "k \<notin> fst ` set obj" by auto
    then have same: "map (\<lambda>(k', v'). (k', if k' = k then Number (Num y) else v')) obj = obj"
      by (induction obj) auto
    from True Cons.prems e notin have "v' = Number (Num x)" by (auto simp: image_iff)
    with True e same show ?thesis by (simp add: sumOfTotals_def totalOf_def)
  next
    case False
    with Cons.prems e have "(k, Number (Num x)) \<in> set obj" "distinct (map fst obj)" by auto
    with Cons.IH
    have "sumOfTotals (map (\<lambda>(k', v'). (k', if k' = k then Number (Num y) else v')) obj) =
           sumOfTotals obj - x + y" by simp
    with False e show ?thesis by (simp add: sumOfTotals_def)
  qed
qed

lemma proto_name: "''__proto__'' \<in> set Object_prototype_names"
  by (simp add: Object_prototype_names_def)

lemma langStep_inv:
  assumes "totalsInv st" "bytes = Num b" "0 \<le> b" "lang \<notin> set Object_prototype_names"
  shows "totalsInv (langStep st (lang, bytes))"
proof -
  obtain lt g where st: "st = (lt, g)" by (cases st)
  from assms(1) st have d: "distinct (map fst lt)"
      and nn: "\<forall>(lang, v)\<in>set lt. \<exists>x. v = Number (Num x) \<and> 0 \<le> x"
      and g: "g = Num (sumOfTotals lt)"
    by (simp_all add: totalsInv_def)
  have np: "lang \<noteq> ''__proto__''" using assms(4) proto_name by blast
  then have assign: "Object_assign lt lang v = Object_set lt lang v" for v
    by (simp add: Object_assign_def)
  show ?thesis
  proof (cases "map_of lt lang")
    case None
    then have notin: "lang \<notin> fst ` set lt" by (simp add: map_of_eq_None_iff)
    have "Object_get lt lang = Undefined"
      using None assms(4) by (simp add: Object_get_def)
    then have "langStep st (lang, bytes) =
        (lt @ [(lang, Number (Num b))], Num (sumOfTotals lt + b))"
      using notin by (simp add: st assign assms(2) g add_def Object_set_absent)
    then show ?thesis
      using d nn notin assms(3)
      by (auto simp: totalsInv_def sumOfTotals_append sumOfTotals_def totalOf_def)
  next
    case (Some v)
    then have mem: "(lang, v) \<in> set lt" by (rule map_of_SomeD)
    with nn obtain x where x: "v = Number (Num x)" "0 \<le> x" by auto
    have get: "Object_get lt lang = Own (Number (Num x))"
      using Some x by (simp add: Object_get_def)
    have oz: "plus_Number (or_zero (Object_get lt lang)) (Num b) = Number (Num (x + b))"
      using x(2) assms(3) by (simp add: get add_def)
    have present: "lang \<in> fst ` set lt" using mem by force
    let ?lt' = "map (\<lambda>(k', v'). (k', if k' = lang then Number (Num (x + b)) else v')) lt"
    have step: "langStep st (lang, bytes) = (?lt', Num (sumOfTotals lt + b))"
      by (simp add: st assign oz assms(2) g add_def Object_set_present [OF present d])
    have keys: "map fst ?lt' = map fst lt" by (simp add: comp_def case_prod_unfold)
    have sum: "sumOfTotals ?lt' = sumOfTotals lt - x + (x + b)"
      using d mem x by (intro sumOfTotals_replace) simp_all
    have nn': "\<forall>(lang, v)\<in>set ?lt'. \<exists>x. v = Number (Num x) \<and> 0 \<le> x"
      using nn x assms(3) by auto
    have d': "distinct (map fst ?lt')" by (simp only: keys d)
    have s': "Num (sumOfTotals lt + b) = Num (sumOfTotals ?lt')" by (simp only: sum) simp
    show ?thesis
      unfolding step totalsInv_def fst_conv snd_conv using d' s' nn' by (intro conjI)
  qed
qed

lemma foldl_langStep_inv:
  "totalsInv st \<Longrightarrow>
   \<forall>(lang, bytes)\<in>set repoLangs. lang \<notin> set Object_prototype_names \<and> byteCount bytes \<Longrightarrow>
     totalsInv (foldl langStep st repoLangs)"
proof (induction repoLangs arbitrary: st)
  case Nil
  then show ?case by simp
next
  case (Cons e repoLangs)
  obtain lang bytes where e: "e = (lang, bytes)" by (cases e)
  with Cons.prems have l: "lang \<notin> set Object_prototype_names" and "byteCount bytes" by auto
  then obtain b where b: "bytes = Num b" "0 \<le> b"
    by (cases bytes) (auto simp: byteCount_def)
  from Cons.prems(1) b l have "totalsInv (langStep st (lang, bytes))"
    by (rule langStep_inv)
  with Cons e show ?case by simp
qed

lemma repoStep_inv:
  assumes "totalsInv st" "byteCounts rl"
  shows "totalsInv (repoStep rl st r)"
proof (cases "map_of rl r")
  case None
  with assms show ?thesis by (simp add: repoStep_def Object_get_def)
next
  case (Some repoLangs)
  then have "(r, repoLangs) \<in> set rl" by (rule map_of_SomeD)
  with assms(2)
  have "\<forall>(lang, bytes)\<in>set repoLangs. lang \<notin> set Object_prototype_names \<and> byteCount bytes"
    by (auto simp: byteCounts_def)
  with assms(1) Some show ?thesis by (simp add: repoStep_def Object_get_def foldl_langStep_inv)
qed

lemma languageTotals_inv:
  assumes "byteCounts rl"
  shows "totalsInv (languageTotals commits rl)"
proof -
  have "totalsInv (foldl (repoStep rl) st rs)" if "totalsInv st" for st rs
    using that by (induction rs arbitrary: st) (simp_all add: repoStep_inv [OF _ assms])
  moreover have "totalsInv ([], Num 0)" by (simp add: totalsInv_def sumOfTotals_def)
  ultimately show ?thesis by (simp add: languageTotals_def Let_def)
qed

lemma round_error:
  "\<bar>real_of_int \<lfloor>y * 10000 + 1 / 2\<rfloor> / 10000 - y\<bar> \<le> 1 / 20000"
proof -
  define n where "n = \<lfloor>y * 10000 + 1 / 2\<rfloor>"
  have "real_of_int n \<le> y * 10000 + 1 / 2" "y * 10000 + 1 / 2 < real_of_int n + 1"
    unfolding n_def by linarith+
  then have "\<bar>real_of_int n - y * 10000\<bar> \<le> 1 / 2" by linarith
  then have "\<bar>(real_of_int n - y * 10000) / 10000\<bar> \<le> (1 / 2) / 10000"
    by (simp only: abs_divide) (simp add: divide_right_mono)
  then show ?thesis unfolding n_def by (simp add: diff_divide_distrib)
qed

lemma sum_list_abs_diff:
  fixes f h :: "'a \<Rightarrow> real"
  assumes "\<And>x. x \<in> set xs \<Longrightarrow> \<bar>f x - h x\<bar> \<le> e"
  shows "\<bar>(\<Sum>x\<leftarrow>xs. f x) - (\<Sum>x\<leftarrow>xs. h x)\<bar> \<le> real (length xs) * e"
  using assms
proof (induction xs)
  case Nil
  then show ?case by simp
next
  case (Cons x xs)
  have "\<bar>f x - h x\<bar> \<le> e" using Cons.prems by simp
  moreover have "\<bar>(\<Sum>x\<leftarrow>xs. f x) - (\<Sum>x\<leftarrow>xs. h x)\<bar> \<le> real (length xs) * e"
    using Cons by simp
  ultimately show ?case by (simp add: algebra_simps)
qed

lemma computeLanguages_Some:
  assumes "byteCounts rl" "languageTotals commits rl = (lt, Num g)" "0 < g"
  shows "computeLanguages commits (Some rl) = map (\<lambda>(lang, v). (lang, Num (fractionOf g v))) lt"
proof -
  from languageTotals_inv [OF assms(1), of commits] assms(2)
  have d: "distinct (map fst lt)"
      and nn: "\<forall>(lang, v)\<in>set lt. \<exists>x. v = Number (Num x) \<and> 0 \<le> x"
    by (simp_all add: totalsInv_def)
  have "computeLanguages commits (Some rl) =
      foldl (\<lambda>langs (lang, bytes).
               Object_set langs lang (round4 (divide_num (ToNumber bytes) (Num g)))) [] lt"
    using assms(3) by (simp add: computeLanguages_def assms(2))
  also have "\<dots> = map (\<lambda>(lang, bytes). (lang, round4 (divide_num (ToNumber bytes) (Num g)))) lt"
    using foldl_Object_set [of lt "[]" "\<lambda>bytes. round4 (divide_num (ToNumber bytes) (Num g))"] d
    by simp
  also have "\<dots> = map (\<lambda>(lang, v). (lang, Num (fractionOf g v))) lt"
  proof (rule map_cong [OF refl])
    fix e assume e: "e \<in> set lt"
    obtain lang v where lv: "e = (lang, v)" by (cases e)
    with e nn obtain x where "v = Number (Num x)" by auto
    then show "(case e of (lang, bytes) \<Rightarrow> (lang, round4 (divide_num (ToNumber bytes) (Num g)))) =
               (case e of (lang, v) \<Rightarrow> (lang, Num (fractionOf g v)))"
      using assms(3) by (simp add: lv round4_Num fractionOf_def totalOf_def)
  qed
  finally show ?thesis .
qed

lemma computeLanguages_empty:
  "repoLanguages = None \<or>
   (\<exists>rl. repoLanguages = Some rl \<and> snd (languageTotals commits rl) = Num 0) \<Longrightarrow>
     computeLanguages commits repoLanguages = []"
  by (auto simp: computeLanguages_def case_prod_unfold)

lemma languages_parseCommits:
  "languages (parseCommits getTime commits repoLanguages now) =
     (if commits = [] then [] else computeLanguages commits repoLanguages)"
  by (simp add: parseCommits_def Let_def)

lemma thirds_totals:
  "languageTotals thirdsCommits thirdsLanguages =
     ([(''TypeScript'', Number (Num 1)), (''JavaScript'', Number (Num 1)),
       (''Python'', Number (Num 1))], Num 3)"
  by (simp add: languageTotals_def thirdsCommits_def thirdsLanguages_def new_Set_def Set_add_def
      repoStep_def Object_get_def Object_assign_def Object_prototype_names_def add_def)

lemma thirds_languages:
  "languages (parseCommits getTime thirdsCommits (Some thirdsLanguages) now) =
     [(''TypeScript'', Num (3333 / 10000)), (''JavaScript'', Num (3333 / 10000)),
      (''Python'', Num (3333 / 10000))]"
proof -
  have ne: "thirdsCommits \<noteq> []" by (simp add: thirdsCommits_def)
  have f: "\<lfloor>(20003 :: real) / 6\<rfloor> = 3333" by (simp add: floor_eq_iff)
  show ?thesis
    using ne by (simp add: languages_parseCommits computeLanguages_def thirds_totals round4_Num f)
qed

lemma norm_totals:
  "languageTotals normCommits normLanguages =
     ([(''TypeScript'', Number (Num 13000)), (''JavaScript'', Number (Num 2000)),
       (''Python'', Number (Num 5000))], Num 20000)"
  by (simp add: languageTotals_def normCommits_def normLanguages_def new_Set_def Set_add_def
      repoStep_def Object_get_def Object_assign_def Object_prototype_names_def add_def)

lemma norm_languages:
  "languages (parseCommits getTime normCommits (Some normLanguages) now) =
     [(''TypeScript'', Num (65 / 100)), (''JavaScript'', Num (1 / 10)), (''Python'', Num (25 / 100))]"
proof -
  have ne: "normCommits \<noteq> []" by (simp add: normCommits_def)
  have f: "\<lfloor>(13001 :: real) / 2\<rfloor> = 6500" "\<lfloor>(2001 :: real) / 2\<rfloor> = 1000"
      "\<lfloor>(5001 :: real) / 2\<rfloor> = 2500"
    by (simp_all add: floor_eq_iff)
  show ?thesis
    using ne by (simp add: languages_parseCommits computeLanguages_def norm_totals round4_Num f)
qed

lemma computeLanguages_normalized:
  assumes "byteCounts rl"
  shows "(\<forall>(lang, v)\<in>set (computeLanguages commits (Some rl)). \<exists>x. v = Num x \<and> 0 \<le> x) \<and>
         (computeLanguages commits (Some rl) \<noteq> [] \<longrightarrow>
            \<bar>sumOfValues (computeLanguages commits (Some rl)) - 1\<bar>
              \<le> real (length (computeLanguages commits (Some rl))) / 20000)"
proof -
  obtain lt gt' where tot: "languageTotals commits rl = (lt, gt')" by (cases "languageTotals commits rl")
  from languageTotals_inv [OF assms, of commits] tot
  have nn: "\<forall>(lang, v)\<in>set lt. \<exists>x. v = Number (Num x) \<and> 0 \<le> x"
      and g: "gt' = Num (sumOfTotals lt)"
    by (simp_all add: totalsInv_def)
  define g where "g = sumOfTotals lt"
  have tot': "languageTotals commits rl = (lt, Num g)" by (simp add: tot g g_def)
  show ?thesis
  proof (cases "0 < g")
    case False
    then have "computeLanguages commits (Some rl) = []"
      by (simp add: computeLanguages_def tot')
    then show ?thesis by simp
  next
    case True
    let ?ls = "map (\<lambda>(lang, v). (lang, Num (fractionOf g v))) lt"
    have eq: "computeLanguages commits (Some rl) = ?ls"
      by (rule computeLanguages_Some [OF assms tot' True])
    have v0: "0 \<le> totalOf v" if "(lang, v) \<in> set lt" for lang v
      using nn that by (auto simp: totalOf_def)
    have f0: "0 \<le> fractionOf g v" if "(lang, v) \<in> set lt" for lang v
      using v0 [OF that] True by (simp add: fractionOf_def)
    have vals: "\<forall>(lang, v)\<in>set ?ls. \<exists>x. v = Num x \<and> 0 \<le> x"
      using f0 by auto
    have "sumOfValues ?ls = (\<Sum>e\<leftarrow>lt. fractionOf g (snd e))"
      by (simp add: sumOfValues_def comp_def case_prod_unfold numOf_def)
    moreover have "(\<Sum>e\<leftarrow>lt. totalOf (snd e) / g) = 1"
    proof -
      have "(\<Sum>e\<leftarrow>lt. totalOf (snd e) / g) = (\<Sum>e\<leftarrow>lt. totalOf (snd e)) / g"
        by (induction lt) (simp_all add: add_divide_distrib)
      also have "(\<Sum>e\<leftarrow>lt. totalOf (snd e)) = g"
        by (simp add: g_def sumOfTotals_def case_prod_unfold)
      finally show ?thesis using True by simp
    qed
    moreover have "\<bar>(\<Sum>e\<leftarrow>lt. fractionOf g (snd e)) - (\<Sum>e\<leftarrow>lt. totalOf (snd e) / g)\<bar>
        \<le> real (length lt) * (1 / 20000)"
      unfolding fractionOf_def by (rule sum_list_abs_diff) (rule round_error)
    ultimately have "\<bar>sumOfValues ?ls - 1\<bar> \<le> real (length ?ls) / 20000" by simp
    with vals show ?thesis unfolding eq by blast
  qed
qed

lemma keys_Object_set: "fst ` set (Object_set obj k v) = insert k (fst ` set obj)"
proof (induction obj)
  case Nil
  then show ?case by simp
next
  case (Cons e obj)
  obtain k' v' where e: "e = (k', v')" by (cases e)
  show ?case
  proof (cases "k' = k")
    case True
    then show ?thesis by (simp add: e)
  next
    case False
    then show ?thesis by (simp add: e Cons.IH insert_commute)
  qed
qed

lemma keys_foldl_Object_set:
  "fst ` set (foldl (\<lambda>obj (k, v). Object_set obj k (f v)) acc xs) = fst ` set acc \<union> fst ` set xs"
proof (induction xs arbitrary: acc)
  case Nil
  then show ?case by simp
next
  case (Cons e xs)
  obtain k v where e: "e = (k, v)" by (cases e)
  show ?case by (simp add: Cons.IH e keys_Object_set)
qed

lemma keys_Object_assign: "fst ` set (Object_assign obj k v) \<subseteq> insert k (fst ` set obj)"
  by (auto simp: Object_assign_def keys_Object_set)

lemma keys_langStep:
  "fst ` set (fst (langStep st e)) \<subseteq> insert (fst e) (fst ` set (fst st))"
  using keys_Object_assign by (cases st; cases e) simp

lemma keys_foldl_langStep:
  "fst ` set (fst (foldl langStep st repoLangs)) \<subseteq> fst ` set (fst st) \<union> fst ` set repoLangs"
proof (induction repoLangs arbitrary: st)
  case Nil
  then show ?case by simp
next
  case (Cons e repoLangs)
  from Cons.IH [of "langStep st e"] keys_langStep [of st e] show ?case by auto
qed

lemma keys_repoStep:
  "fst ` set (fst (repoStep rl st r)) \<subseteq>
     fst ` set (fst st) \<union> (case map_of rl r of Some repoLangs \<Rightarrow> fst ` set repoLangs | None \<Rightarrow> {})"
proof (cases "map_of rl r")
  case None
  then show ?thesis by (simp add: repoStep_def Object_get_def)
next
  case (Some repoLangs)
  then show ?thesis using keys_foldl_langStep [of st repoLangs]
    by (simp add: repoStep_def Object_get_def)
qed

lemma keys_foldl_repoStep:
  "fst ` set (fst (foldl (repoStep rl) st rs)) \<subseteq>
     fst ` set (fst st) \<union>
     (\<Union>r\<in>set rs. case map_of rl r of Some repoLangs \<Rightarrow> fst ` set repoLangs | None \<Rightarrow> {})"
proof (induction rs arbitrary: st)
  case Nil
  then show ?case by simp
next
  case (Cons r rs)
  from Cons.IH [of "repoStep rl st r"] keys_repoStep [of rl st r] show ?case by auto
qed

lemma keys_languageTotals:
  "fst ` set (fst (languageTotals commits rl)) \<subseteq>
     (\<Union>c\<in>set commits. case map_of rl (repo c) of Some repoLangs \<Rightarrow> fst ` set repoLangs | None \<Rightarrow> {})"
  using keys_foldl_repoStep [of rl "([], Num 0)" "new_Set (map repo commits)"]
  by (simp add: languageTotals_def Let_def set_new_Set)

lemma keys_computeLanguages:
  "fst ` set (computeLanguages commits (Some rl)) \<subseteq> fst ` set (fst (languageTotals commits rl))"
proof -
  obtain lt g where tot: "languageTotals commits rl = (lt, g)"
    by (cases "languageTotals commits rl")
  have "fst ` set (foldl (\<lambda>langs (lang, bytes).
                           Object_set langs lang (round4 (divide_num (ToNumber bytes) g)))
                     [] lt) = fst ` set lt"
    using keys_foldl_Object_set [of "\<lambda>bytes. round4 (divide_num (ToNumber bytes) g)" "[]" lt]
    by simp
  then show ?thesis by (cases "gt g (Num 0)") (simp_all add: computeLanguages_def tot)
qed

lemma languages_keys_from_repos:
  assumes "(lang, v) \<in> set (languages (parseCommits getTime commits (Some rl) now))"
  shows "\<exists>c\<in>set commits. \<exists>repoLangs. map_of rl (repo c) = Some repoLangs \<and> lang \<in> fst ` set repoLangs"
proof -
  from assms have "lang \<in> fst ` set (computeLanguages commits (Some rl))"
    by (force simp: languages_parseCommits split: if_splits)
  with keys_computeLanguages have "lang \<in> fst ` set (fst (languageTotals commits rl))" by blast
  with keys_languageTotals obtain c where c: "c \<in> set commits"
      and l: "lang \<in> (case map_of rl (repo c) of Some repoLangs \<Rightarrow> fst ` set repoLangs | None \<Rightarrow> {})"
    by blast
  from l obtain repoLangs where "map_of rl (repo c) = Some repoLangs" "lang \<in> fst ` set repoLangs"
    by (cases "map_of rl (repo c)") simp_all
  with c show ?thesis by blast
qed

section \<open>Claim on the languages\<close>

text \<open>
  C4, as stated, fails: the values of a non-empty \<open>languages\<close> need not sum to \<open>1\<close>, since
  each fraction is rounded to four decimals on its own. Three languages of equal size get
  \<open>0.3333\<close> each, and the sum is \<open>0.9999\<close>.
\<close>

theorem languages_sum_counterexample:
  "languages (parseCommits testClock thirdsCommits (Some thirdsLanguages) (Num 1705320000000)) =
     [(''TypeScript'', Num (3333 / 10000)), (''JavaScript'', Num (3333 / 10000)),
      (''Python'', Num (3333 / 10000))] \<and>
   sumOfValues
     (languages (parseCommits testClock thirdsCommits (Some thirdsLanguages) (Num 1705320000000)))
     = 9999 / 10000 \<and>
   sumOfValues
     (languages (parseCommits testClock thirdsCommits (Some thirdsLanguages) (Num 1705320000000)))
     \<noteq> 1"
  by (simp add: thirds_languages sumOfValues_def numOf_def)

text \<open>
  C4, amended. With byte counts that are integers from \<open>0\<close> to below \<open>2^53\<close>, under language
  names that are no names of \<open>Object.prototype\<close>, every value of \<open>languages\<close> is a
  non-negative number and, when \<open>languages\<close> is not empty, the values sum to \<open>1\<close> up to the
  rounding of each: the sum differs from \<open>1\<close> by less than \<open>0.0001\<close> times the number of
  languages. Without a language map, or when the grand total of the bytes is zero,
  \<open>languages\<close> is empty.
\<close>

theorem languages_normalized:
  "(byteCounts rl \<longrightarrow>
      (\<forall>(lang, v)\<in>set (languages (parseCommits getTime commits (Some rl) now)).
         \<exists>x. v = Num x \<and> 0 \<le> x) \<and>
      (languages (parseCommits getTime commits (Some rl) now) \<noteq> [] \<longrightarrow>
         \<bar>sumOfValues (languages (parseCommits getTime commits (Some rl) now)) - 1\<bar>
           < real (length (languages (parseCommits getTime commits (Some rl) now))) / 10000)) \<and>
   languages (parseCommits getTime commits None now) = [] \<and>
   (snd (languageTotals commits rl) = Num 0 \<longrightarrow>
      languages (parseCommits getTime commits (Some rl) now) = [])"
proof (intro conjI impI)
  assume wf: "byteCounts rl"
  show "\<forall>(lang, v)\<in>set (languages (parseCommits getTime commits (Some rl) now)).
         \<exists>x. v = Num x \<and> 0 \<le> x"
    using computeLanguages_normalized [OF wf, of commits]
    by (simp add: languages_parseCommits)
  let ?ls = "languages (parseCommits getTime commits (Some rl) now)"
  assume ne: "?ls \<noteq> []"
  then have "\<bar>sumOfValues ?ls - 1\<bar> \<le> real (length ?ls) / 20000"
    using computeLanguages_normalized [OF wf, of commits]
    by (simp add: languages_parseCommits split: if_splits)
  moreover have "real (length ?ls) / 20000 < real (length ?ls) / 10000"
    using ne by simp
  ultimately show "\<bar>sumOfValues ?ls - 1\<bar> < real (length ?ls) / 10000" by linarith
next
  show "languages (parseCommits getTime commits None now) = []"
    by (simp add: languages_parseCommits computeLanguages_empty)
next
  assume "snd (languageTotals commits rl) = Num 0"
  then show "languages (parseCommits getTime commits (Some rl) now) = []"
    by (simp add: languages_parseCommits computeLanguages_empty)
qed

theorem languages_normalized_witness:
  "byteCounts normLanguages \<and>
   languages (parseCommits testClock normCommits (Some normLanguages) (Num 1705320000000)) \<noteq> [] \<and>
   \<bar>sumOfValues (languages (parseCommits testClock normCommits (Some normLanguages)
        (Num 1705320000000))) - 1\<bar>
     < real (length (languages (parseCommits testClock normCommits (Some normLanguages)
          (Num 1705320000000)))) / 10000 \<and>
   snd (languageTotals normCommits []) = Num 0 \<and>
   languages (parseCommits testClock normCommits (Some []) (Num 1705320000000)) = []"
proof -
  have wf: "byteCounts normLanguages"
    by (simp add: byteCounts_def normLanguages_def byteCount_def Object_prototype_names_def)
  have ne: "languages (parseCommits testClock normCommits (Some normLanguages) (Num 1705320000000)) \<noteq> []"
    by (simp add: norm_languages)
  have z: "snd (languageTotals normCommits []) = Num 0"
    by (simp add: languageTotals_def normCommits_def new_Set_def Set_add_def repoStep_def
        Object_get_def Object_prototype_names_def)
  from languages_normalized [of normLanguages testClock normCommits "Num 1705320000000"]
       languages_normalized [of "[]" testClock normCommits "Num 1705320000000"] wf ne z
  show ?thesis by blast
qed

section \<open>Claim on the keys of the traits\<close>

text \<open>
  C9. For every non-empty commit list the \<open>commitTraits\<close> of \<open>parseCommits\<close> has exactly the
  six keys \<open>fixer, tests, docs, wip, chores, chaotic\<close>, in this order, a trait that no commit
  matches included, and every value is a number of \<open>[0,1]\<close>. The languages differ: a key of
  \<open>languages\<close> is always a language of the byte map of some repository of the commits, so
  a language for which no bytes are listed has no key.
\<close>

theorem commitTraits_six_keys:
  assumes "commits \<noteq> []"
  shows "map fst (commitTraits (parseCommits getTime commits repoLanguages now)) =
           [''fixer'', ''tests'', ''docs'', ''wip'', ''chores'', ''chaotic''] \<and>
         (\<forall>(t, v)\<in>set (commitTraits (parseCommits getTime commits repoLanguages now)).
            \<exists>x. v = Num x \<and> 0 \<le> x \<and> x \<le> 1) \<and>
         (\<forall>(lang, v)\<in>set (languages (parseCommits getTime commits (Some rl) now)).
            \<exists>c\<in>set commits. \<exists>repoLangs.
              map_of rl (repo c) = Some repoLangs \<and> lang \<in> fst ` set repoLangs)"
proof (intro conjI)
  show "map fst (commitTraits (parseCommits getTime commits repoLanguages now)) =
           [''fixer'', ''tests'', ''docs'', ''wip'', ''chores'', ''chaotic'']"
    by (simp add: commitTraits_parseCommits [OF assms] comp_def traitNames_def)
  show "\<forall>(t, v)\<in>set (commitTraits (parseCommits getTime commits repoLanguages now)).
            \<exists>x. v = Num x \<and> 0 \<le> x \<and> x \<le> 1"
    using traitValue_unit [OF assms]
    by (auto simp: commitTraits_parseCommits [OF assms])
  show "\<forall>(lang, v)\<in>set (languages (parseCommits getTime commits (Some rl) now)).
            \<exists>c\<in>set commits. \<exists>repoLangs.
              map_of rl (repo c) = Some repoLangs \<and> lang \<in> fst ` set repoLangs"
    using languages_keys_from_repos by fast
qed

theorem commitTraits_six_keys_witness:
  "normCommits \<noteq> [] \<and>
   map fst (commitTraits (parseCommits testClock normCommits (Some normLanguages) (Num 0))) =
     [''fixer'', ''tests'', ''docs'', ''wip'', ''chores'', ''chaotic''] \<and>
   list_all (\<lambda>(t, v). \<exists>x. v = Num x \<and> 0 \<le> x \<and> x \<le> 1)
     (commitTraits (parseCommits testClock normCommits (Some normLanguages) (Num 0))) \<and>
   list_all (\<lambda>(lang, v). \<exists>c\<in>set normCommits. \<exists>repoLangs.
               map_of normLanguages (repo c) = Some repoLangs \<and> lang \<in> fst ` set repoLangs)
     (languages (parseCommits testClock normCommits (Some normLanguages) (Num 0)))"
proof -
  have ne: "normCommits \<noteq> []" by (simp add: normCommits_def)
  from commitTraits_six_keys [OF ne, of testClock "Some normLanguages" "Num 0" normLanguages] ne
  show ?thesis unfolding list_all_iff by blast
qed

section \<open>The unit tests of the repository, on the model\<close>

text \<open>
  The expectations of the repository's own tests that no claim above covers, evaluated on
  the model: identical profiles score \<open>0.95\<close>, the partial overlap scores \<open>0.6334\<close>, no
  commits give the empty profile, five commits at the reference time have activity \<open>1\<close>,
  and the chaotic commits give \<open>chaotic = 0.6667\<close>, \<open>fixer = 0.3333\<close> and the highlights
  \<open>chaotic, fixer\<close>.
\<close>

lemma test_identical_profiles:
  "computeCompatibility identicalProfile identicalProfile = Num (95 / 100)"
proof -
  have "fractionVector (languages identicalProfile)"
    by (simp add: identicalProfile_def fractionVector_def fraction4_def)
  then have T: "cosineSimilarity (languages identicalProfile) (languages identicalProfile) = Num 1"
    by (rule fractionVector_cosine)
  have "fractionVector (commitTraits identicalProfile)"
    by (simp add: identicalProfile_def fractionVector_def fraction4_def)
  then have R: "cosineSimilarity (commitTraits identicalProfile) (commitTraits identicalProfile) = Num 1"
    by (rule fractionVector_cosine)
  have f: "activityScore identicalProfile = Num (8 / 10)" "timezoneOffset identicalProfile = None"
    by (simp_all add: identicalProfile_def)
  have "computeCompatibility identicalProfile identicalProfile = round4 (Num (95 / 100))"
    by (simp add: computeCompatibility_def T R f timezoneScore_half
        add_def mul_def sub_def Math_abs_def)
  also have "\<dots> = Num (95 / 100)" by (simp add: round4_Num)
  finally show ?thesis .
qed

lemma test_empty_profiles:
  "computeCompatibility emptyProfile emptyProfile = Num (25 / 100)"
proof -
  have "computeCompatibility emptyProfile emptyProfile = round4 (Num (25 / 100))"
    by (simp add: computeCompatibility_def emptyProfile_def cosineSimilarity_empty
        timezoneScore_def add_def mul_def sub_def Math_abs_def)
  also have "\<dots> = Num (25 / 100)" by (simp add: round4_Num)
  finally show ?thesis .
qed

lemma partial_languages:
  "cosineSimilarity (languages testProfileA) (languages testProfileB) =
     Num ((35 / 100) / sqrt (29 / 100))"
proof -
  let ?a = "languages testProfileA" and ?b = "languages testProfileB"
  have k: "keysOf ?a ?b = [''TypeScript'', ''Python'', ''Go'']"
    by (simp add: keysOf_def testProfileA_def testProfileB_def Object_keys_def new_Set_def
        Set_add_def)
  have plain: "\<forall>k\<in>set (keysOf ?a ?b). plainRead ?a k \<and> plainRead ?b k"
    unfolding k by (simp add: plainRead_def Object_prototype_names_def)
  have d: "dotOf ?a ?b (keysOf ?a ?b) = 35 / 100" "dotOf ?a ?a (keysOf ?a ?b) = 58 / 100"
      "dotOf ?b ?b (keysOf ?a ?b) = 50 / 100"
    unfolding k
    by (simp_all add: dotOf_def valOf_def Object_get_def Object_prototype_names_def
        testProfileA_def testProfileB_def)
  have "sqrt (58 / 100) * sqrt (50 / 100) = sqrt (29 / 100)"
    by (simp add: real_sqrt_mult [symmetric])
  moreover have "sqrt (29 / 100) \<noteq> 0" by simp
  ultimately have "cosineOf ?a ?b = (35 / 100) / sqrt (29 / 100)"
    unfolding cosineOf_def Let_def d by (simp only: if_False)
  then show ?thesis by (simp only: cosineSimilarity_Num [OF plain])
qed

lemma partial_traits:
  "cosineSimilarity (commitTraits testProfileA) (commitTraits testProfileB) = Num (6 / 13)"
proof -
  let ?a = "commitTraits testProfileA" and ?b = "commitTraits testProfileB"
  have k: "keysOf ?a ?b = [''fixer'', ''tests'', ''docs'', ''wip'', ''chores'', ''chaotic'']"
    by (simp add: keysOf_def testProfileA_def testProfileB_def Object_keys_def new_Set_def
        Set_add_def)
  have plain: "\<forall>k\<in>set (keysOf ?a ?b). plainRead ?a k \<and> plainRead ?b k"
    unfolding k by (simp add: plainRead_def Object_prototype_names_def)
  have d: "dotOf ?a ?b (keysOf ?a ?b) = 24 / 100" "dotOf ?a ?a (keysOf ?a ?b) = 52 / 100"
      "dotOf ?b ?b (keysOf ?a ?b) = 52 / 100"
    unfolding k
    by (simp_all add: dotOf_def valOf_def Object_get_def Object_prototype_names_def
        testProfileA_def testProfileB_def)
  have m: "sqrt (52 / 100) * sqrt (52 / 100) = (52 / 100 :: real)" by simp
  have "cosineOf ?a ?b = 6 / 13"
    unfolding cosineOf_def Let_def d m by simp
  then show ?thesis by (simp only: cosineSimilarity_Num [OF plain])
qed

lemma test_partial_overlap:
  "computeCompatibility testProfileA testProfileB = Num (6334 / 10000)"
proof -
  define s :: real where "s = sqrt (29 / 100)"
  have lo: "5385 / 10000 < s"
    unfolding s_def by (rule real_less_rsqrt) (simp add: power2_eq_square)
  have hi: "s < 5386 / 10000"
    unfolding s_def by (rule real_less_lsqrt) (simp_all add: power2_eq_square)
  define T where "T = (35 / 100) / s"
  have s0: "0 < s" using lo by simp
  have "64983 / 100000 * s < 35 / 100" using hi by simp
  then have T1: "64983 / 100000 < T"
    unfolding T_def using s0 by (simp only: pos_less_divide_eq)
  have "35 / 100 < 64996 / 100000 * s" using lo by simp
  then have T2: "T < 64996 / 100000"
    unfolding T_def using s0 by (simp only: pos_divide_less_eq)
  define score where "score = 4 / 10 * T + 3 / 10 * (6 / 13) + 2 / 10 * (8 / 10) + 1 / 10 * (3 / 4)"
  have f: "activityScore testProfileA = Num (7 / 10)" "activityScore testProfileB = Num (5 / 10)"
      "timezoneOffset testProfileA = Some (Num 0)" "timezoneOffset testProfileB = Some (Num 3)"
    by (simp_all add: testProfileA_def testProfileB_def)
  have "computeCompatibility testProfileA testProfileB = round4 (Num score)"
    by (simp add: computeCompatibility_def partial_languages partial_traits
        f timezoneScore_Num score_def T_def s_def add_def mul_def sub_def Math_abs_def)
  moreover have "\<lfloor>score * 10000 + 1 / 2\<rfloor> = 6334"
  proof (rule floor_unique)
    show "of_int 6334 \<le> score * 10000 + 1 / 2" unfolding score_def using T1 by simp
    show "score * 10000 + 1 / 2 < of_int 6334 + 1" unfolding score_def using T2 by simp
  qed
  ultimately show ?thesis by (simp add: round4_Num)
qed

lemma test_empty_commits:
  "parseCommits getTime [] repoLanguages now = emptyProfile"
  by (simp add: parseCommits_def emptyProfile_def)

lemma test_fresh_commits:
  "activityScore (parseCommits testClock freshCommits None (Num 1705320000000)) = Num 1"
proof -
  have ne: "freshCommits \<noteq> []" by (simp add: freshCommits_def)
  have p: "\<forall>c\<in>set freshCommits. testClock (date c) \<noteq> NaN"
    by (simp add: freshCommits_def testClock_def)
  have "(\<Sum>c\<leftarrow>freshCommits. weightOf testClock 1705320000000 c) = 5"
    by (simp add: freshCommits_def weightOf_def testClock_def numOf_def)
  moreover have "length freshCommits = 5" by (simp add: freshCommits_def)
  ultimately show ?thesis
    by (simp add: activityScore_parseCommits [OF ne] computeActivity_Num [OF p ne] round4_Num)
qed

lemma chaotic_table:
  "map (\<lambda>(t, pattern). map (testExact pattern)
         (map toLowerCase [''finally fixed this shit'', ''omg it works lol'', ''clean refactor'']))
     TRAIT_KEYWORDS =
     [[True, False, False], [False, False, False], [False, False, False],
      [False, False, False], [False, False, False], [True, True, False]]"
  by code_simp

lemma test_chaotic_traits:
  "commitTraits (parseCommits getTime chaoticCommits repoLanguages now) =
     [(''fixer'', Num (3333 / 10000)), (''tests'', Num 0), (''docs'', Num 0), (''wip'', Num 0),
      (''chores'', Num 0), (''chaotic'', Num (6667 / 10000))] \<and>
   highlights (parseCommits getTime chaoticCommits repoLanguages now) = ''chaotic, fixer''"
proof -
  let ?p = "parseCommits getTime chaoticCommits repoLanguages now"
  have ne: "chaoticCommits \<noteq> []" by (simp add: chaoticCommits_def)
  have m: "map message chaoticCommits =
      [''finally fixed this shit'', ''omg it works lol'', ''clean refactor'']"
    by (simp add: chaoticCommits_def)
  have "map (\<lambda>t. map (matchesTrait t) (map message chaoticCommits)) traitNames =
     [[True, False, False], [False, False, False], [False, False, False],
      [False, False, False], [False, False, False], [True, True, False]]"
    unfolding m matches_table by (rule chaotic_table)
  then have c: "map (\<lambda>t. traitCount t chaoticCommits) traitNames = [1, 0, 0, 0, 0, 2]"
    by (simp add: traitCount_messages m traitNames_def)
  have l: "length chaoticCommits = 3" by (simp add: chaoticCommits_def)
  have f: "\<lfloor>(20003 :: real) / 6\<rfloor> = 3333" "\<lfloor>(40003 :: real) / 6\<rfloor> = 6667"
    by (simp_all add: floor_eq_iff)
  have v: "map (\<lambda>t. traitValue t chaoticCommits) traitNames =
      [3333 / 10000, 0, 0, 0, 0, 6667 / 10000]"
    using c by (simp add: traitValue_def traitNames_def l f)
  have traits: "commitTraits ?p =
     [(''fixer'', Num (3333 / 10000)), (''tests'', Num 0), (''docs'', Num 0), (''wip'', Num 0),
      (''chores'', Num 0), (''chaotic'', Num (6667 / 10000))]"
    using v by (simp add: commitTraits_parseCommits [OF ne] traitNames_def)
  have "highlights ?p = ''chaotic, fixer''"
    unfolding highlights_parseCommits [OF ne] traits
    by (simp add: computeHighlights_def Array_sort_def compareTraits_def sub_def)
  with traits show ?thesis by simp
qed

end
